theory Spec2Isabelle
  imports Main "HOL-Library.Word" "HOL-Library.Signed_Division"
begin

section \<open>The uploader's admission control (uploader/uploader.go)\<close>

text \<open>
  The uploader resolves a candidate upload to an identity fingerprint, loads the
  identity's row of the table \<^verbatim>\<open>user_stats\<close>, runs the type, size and airtime checks
  and either charges the identity and moves the file into the storage directory, or
  records a strike and escalates (time-out, ban). This theory embeds
  \<^verbatim>\<open>processUpload\<close> and the functions it calls, one definition per Go function, with
  the state the Go code reaches through globals and system calls passed explicitly.

  Go's \<^verbatim>\<open>int\<close> is 64 bits wide on the platforms the Dockerfile builds for, and so is
  the \<^verbatim>\<open>int64\<close> of \<^verbatim>\<open>FileInfo.Size()\<close> and SQLite's INTEGER: integers are
  \<^typ>\<open>64 word\<close>, \<open>+\<close> wraps around, and the comparisons of the source are signed, so
  they are written on \<^const>\<open>sint\<close>. A \<^verbatim>\<open>time.Time\<close> is a number of seconds; the
  zero value of the type is 0.
\<close>

subsection \<open>Data\<close>

type_synonym goint = "64 word"
type_synonym gotime = nat

text \<open>The \<^verbatim>\<open>Uploader\<close> section of \<^verbatim>\<open>Config\<close>.\<close>

record Config =
  MaxUserUploadSize :: goint
  AcceptedUploadFileTypes :: "string list"
  MaxUserAirtime :: goint
  SSHKeyDir :: string
  AccessLog :: string
  InboundDirectory :: string
  StorageDirectory :: string
  StrikesBeforeTimeOut :: goint
  TimeOutsBeforeBan :: goint

record UserData =
  Strikes :: goint
  Timeouts :: goint
  DailyUpload :: goint
  DailyAirtime :: goint
  LastUpload :: gotime

text \<open>
  A row of \<^verbatim>\<open>user_stats\<close> without its key \<^verbatim>\<open>user\<close>: four INTEGER columns that
  default to 0 and the nullable \<^verbatim>\<open>last_upload\<close>.
\<close>

record stats_row =
  strikes :: goint
  timeouts :: goint
  daily_upload :: goint
  daily_airtime :: goint
  last_upload :: "gotime option"

text \<open>
  A file of the file system as the uploader sees it: the size \<^verbatim>\<open>os.Stat\<close> reports, in
  bytes, and what \<^verbatim>\<open>ffprobe\<close> prints for it (\<open>None\<close> when ffprobe exits with an
  error).
\<close>

record file_info =
  fsize :: goint
  probe :: "string option"

text \<open>One line of access.log: the time, the user and the action of \<^verbatim>\<open>logAction\<close>.\<close>

type_synonym audit_entry = "gotime \<times> string \<times> string"

text \<open>
  Every call that leaves the process is recorded, in order, in the field \<open>calls\<close> of
  the world; the field is a ghost of the model and lets a theorem say which calls an
  evaluation made. The calls to \<^verbatim>\<open>log.Printf\<close> (diagnostics on standard error) are
  not modelled.
\<close>

datatype call =
    DbQueryRow string
  | DbInsert string
  | DbUpdate string
  | DbDelete string
  | IoWriteFile
  | OsStat string
  | ExecFfprobe string
  | OsRename string string

record world =
  user_stats :: "string \<rightharpoonup> stats_row"
  files :: "string \<rightharpoonup> file_info"
  access_log :: "audit_entry list"
  clock :: gotime
  calls :: "call list"

text \<open>
  What the source uses and does not define is a parameter of the model:
  \<^item> \<open>fingerprintSSHKey\<close> is called by \<^verbatim>\<open>processUpload\<close> and is not among the source
    files; \<open>None\<close> is its error return;
  \<^item> \<open>EqualFold\<close>, \<open>Base\<close>, \<open>Join\<close> are \<^verbatim>\<open>strings.EqualFold\<close>,
    \<^verbatim>\<open>filepath.Base\<close> and \<^verbatim>\<open>filepath.Join\<close> of Go's library,
    \<open>FindStringSubmatch\<close> is the regular expression of \<^verbatim>\<open>parseSSHLogLine\<close>
    applied to a line, and \<open>ScanInt\<close> is what package fmt reads from a string for an
    integer operand under a verb it accepts (\<open>None\<close> when the string does not start
    with such a number);
  \<^item> \<open>faults n c\<close> says that the call \<open>c\<close>, made as the \<open>n\<close>-th call that leaves the
    process, fails (the database is locked, the disk is full, the directory is
    missing): the error returns of the source are taken on such a fault.
\<close>

record env =
  fingerprintSSHKey :: "string \<Rightarrow> string option"
  EqualFold :: "string \<Rightarrow> string \<Rightarrow> bool"
  Base :: "string \<Rightarrow> string"
  Join :: "string \<Rightarrow> string \<Rightarrow> string"
  FindStringSubmatch :: "string \<Rightarrow> string list"
  ScanInt :: "char \<Rightarrow> string \<Rightarrow> goint option"
  faults :: "nat \<Rightarrow> call \<Rightarrow> bool"

datatype error =
    CredentialUnreadable
  | LedgerUnavailable
  | SizeUnavailable
  | DurationUnavailable
  | MoveFailed
  | BadVerb
  | ScanFailed
  | ParseFailed
  | OpenFailed

text \<open>
  \<^verbatim>\<open>processUpload\<close> returns nothing; the model returns, beside the new world, the
  \<^verbatim>\<open>return\<close> statement that ended the evaluation: one of the four admission
  decisions, or \<open>Dropped\<close> with the error that was logged.
\<close>

datatype outcome =
    Admitted
  | RejectedUnsupportedType
  | RejectedSizeQuota
  | RejectedAirtimeQuota
  | Dropped error

subsection \<open>Calls that leave the process\<close>

definition extcall :: "env \<Rightarrow> call \<Rightarrow> world \<Rightarrow> bool \<times> world" where
  "extcall e c w = (\<not> faults e (length (calls w)) c, w\<lparr>calls := calls w @ [c]\<rparr>)"

text \<open>
  \<^verbatim>\<open>ioutil.WriteFile(name, data, perm)\<close> opens the file with
  \<^verbatim>\<open>O_WRONLY|O_CREATE|O_TRUNC\<close> and writes the data: the third argument is the
  permission of a file it creates, not a flag of the open call, so the file holds the
  data and nothing else afterwards.
\<close>

definition WriteFile :: "env \<Rightarrow> audit_entry list \<Rightarrow> world \<Rightarrow> bool \<times> world" where
  "WriteFile e entries w =
     (let (ok, w1) = extcall e IoWriteFile w
      in if ok then (True, w1\<lparr>access_log := entries\<rparr>) else (False, w1))"

text \<open>\<^verbatim>\<open>os.Rename\<close>: fails when the old path does not exist, or on a fault.\<close>

definition Rename :: "env \<Rightarrow> string \<Rightarrow> string \<Rightarrow> world \<Rightarrow> bool \<times> world" where
  "Rename e oldpath newpath w =
     (let (ok, w1) = extcall e (OsRename oldpath newpath) w
      in case (if ok then files w1 oldpath else None) of
           None \<Rightarrow> (False, w1)
         | Some f \<Rightarrow> (True, w1\<lparr>files := ((files w1)(oldpath := None))(newpath \<mapsto> f)\<rparr>))"

text \<open>
  \<^verbatim>\<open>fmt.Sscanf(str, "%" + verb, &v)\<close> for \<^verbatim>\<open>v\<close> an \<^verbatim>\<open>int\<close>. Package fmt
  chooses the scanner by the type of the operand: for an \<^verbatim>\<open>*int\<close> it is
  \<^verbatim>\<open>scanInt\<close>, which takes the verb c as a character and otherwise skips
  leading space and checks the verb with \<^verbatim>\<open>okVerb(verb, "bdoUxXv", "integer")\<close>
  before it reads a digit. For any other verb the scan ends there with an error
  (\<^verbatim>\<open>bad verb '%f' for integer\<close>, or an unexpected end of input when the string
  is empty) and nothing is stored in the operand. The model returns the error and the
  value of the operand after the call.
\<close>

definition Sscanf_int :: "env \<Rightarrow> string \<Rightarrow> char \<Rightarrow> goint \<Rightarrow> error option \<times> goint" where
  "Sscanf_int e str verb v =
     (if verb = CHR ''c'' \<or> verb \<in> set ''bdoUxXv''
      then (case ScanInt e verb str of
              None \<Rightarrow> (Some ScanFailed, v)
            | Some n \<Rightarrow> (None, n))
      else (Some BadVerb, v))"

text \<open>\<^verbatim>\<open>filepath.Ext\<close>: the suffix from the last dot of the last path element.\<close>

fun ext_rev :: "string \<Rightarrow> string \<Rightarrow> string" where
  "ext_rev [] acc = []"
| "ext_rev (c # cs) acc =
     (if c = CHR ''/'' then []
      else if c = CHR ''.'' then c # acc
      else ext_rev cs (c # acc))"

definition Ext :: "string \<Rightarrow> string" where
  "Ext path = ext_rev (rev path) []"

text \<open>\<^verbatim>\<open>strings.Contains\<close>.\<close>

fun has_prefix :: "string \<Rightarrow> string \<Rightarrow> bool" where
  "has_prefix s [] = True"
| "has_prefix [] (p # ps) = False"
| "has_prefix (c # cs) (p # ps) = (c = p \<and> has_prefix cs ps)"

fun Contains :: "string \<Rightarrow> string \<Rightarrow> bool" where
  "Contains [] substr = (substr = [])"
| "Contains (c # cs) substr = (has_prefix (c # cs) substr \<or> Contains cs substr)"

subsection \<open>The functions of uploader.go\<close>

definition logAction :: "env \<Rightarrow> string \<Rightarrow> string \<Rightarrow> world \<Rightarrow> world" where
  "logAction e user action w =
     (let entry = (clock w, user, action)
      in snd (WriteFile e [entry] w))"

definition checkFileType :: "env \<Rightarrow> Config \<Rightarrow> string \<Rightarrow> bool" where
  "checkFileType e cfg fileName =
     (let ext = Ext fileName
      in list_ex (\<lambda>allowedType. EqualFold e ext allowedType) (AcceptedUploadFileTypes cfg))"

text \<open>Go's \<open>/\<close> on \<^verbatim>\<open>int64\<close> truncates towards zero.\<close>

definition godiv :: "goint \<Rightarrow> goint \<Rightarrow> goint" where
  "godiv a b = word_of_int (sint a sdiv sint b)"

definition calculateFileSize :: "env \<Rightarrow> string \<Rightarrow> world \<Rightarrow> (error + goint) \<times> world" where
  "calculateFileSize e filePath w =
     (let (ok, w1) = extcall e (OsStat filePath) w
      in case (if ok then files w1 filePath else None) of
           None \<Rightarrow> (Inl SizeUnavailable, w1)
         | Some fileInfo \<Rightarrow> (Inr (godiv (fsize fileInfo) (1024 * 1024)), w1))"

definition calculateAudioDuration :: "env \<Rightarrow> string \<Rightarrow> world \<Rightarrow> (error + goint) \<times> world" where
  "calculateAudioDuration e filePath w =
     (let (ok, w1) = extcall e (ExecFfprobe filePath) w
      in case (if ok then Option.bind (files w1 filePath) probe else None) of
           None \<Rightarrow> (Inl DurationUnavailable, w1)
         | Some out \<Rightarrow>
             (let duration = 0;
                  duration = snd (Sscanf_int e out (CHR ''f'') duration)
              in (Inr duration, w1)))"

definition zeroUserData :: UserData where
  "zeroUserData = \<lparr>Strikes = 0, Timeouts = 0, DailyUpload = 0, DailyAirtime = 0, LastUpload = 0\<rparr>"

text \<open>The row \<^verbatim>\<open>INSERT INTO user_stats (user) VALUES (?)\<close> creates.\<close>

definition default_row :: stats_row where
  "default_row = \<lparr>strikes = 0, timeouts = 0, daily_upload = 0, daily_airtime = 0, last_upload = None\<rparr>"

definition getUserData :: "env \<Rightarrow> string \<Rightarrow> world \<Rightarrow> (error + UserData) \<times> world" where
  "getUserData e user w =
     (let (ok, w1) = extcall e (DbQueryRow user) w
      in if \<not> ok then (Inl LedgerUnavailable, w1)
         else case user_stats w1 user of
           Some row \<Rightarrow>
             (Inr \<lparr>Strikes = strikes row, Timeouts = timeouts row,
                   DailyUpload = daily_upload row, DailyAirtime = daily_airtime row,
                   LastUpload = (case last_upload row of Some t \<Rightarrow> t | None \<Rightarrow> 0)\<rparr>, w1)
         | None \<Rightarrow>
             (let (ok, w2) = extcall e (DbInsert user) w1
              in if \<not> ok then (Inl LedgerUnavailable, w2)
                 else (Inr zeroUserData, w2\<lparr>user_stats := (user_stats w2)(user \<mapsto> default_row)\<rparr>)))"

text \<open>The row an \<^verbatim>\<open>UPDATE\<close> writes: \<^verbatim>\<open>last_upload\<close> gets the time, never NULL.\<close>

definition row_of :: "UserData \<Rightarrow> stats_row" where
  "row_of userData =
     \<lparr>strikes = Strikes userData, timeouts = Timeouts userData,
      daily_upload = DailyUpload userData, daily_airtime = DailyAirtime userData,
      last_upload = Some (LastUpload userData)\<rparr>"

text \<open>An \<^verbatim>\<open>UPDATE ... WHERE user = ?\<close> changes the row when there is one.\<close>

definition updateUserData :: "env \<Rightarrow> string \<Rightarrow> UserData \<Rightarrow> world \<Rightarrow> error option \<times> world" where
  "updateUserData e user userData w =
     (let (ok, w1) = extcall e (DbUpdate user) w
      in if \<not> ok then (Some LedgerUnavailable, w1)
         else case user_stats w1 user of
           None \<Rightarrow> (None, w1)
         | Some row \<Rightarrow> (None, w1\<lparr>user_stats := (user_stats w1)(user \<mapsto> row_of userData)\<rparr>))"

definition banUser :: "env \<Rightarrow> string \<Rightarrow> world \<Rightarrow> world" where
  "banUser e user w =
     (let (ok, w1) = extcall e (DbDelete user) w;
          w2 = (if ok then w1\<lparr>user_stats := (user_stats w1)(user := None)\<rparr> else w1)
      in logAction e user ''User banned'' w2)"

text \<open>
  \<^verbatim>\<open>timeOutUser\<close> changes the \<^verbatim>\<open>UserData\<close> of its caller through the pointer: the
  model returns it.
\<close>

definition timeOutUser :: "env \<Rightarrow> Config \<Rightarrow> string \<Rightarrow> UserData \<Rightarrow> world \<Rightarrow> UserData \<times> world" where
  "timeOutUser e cfg user userData w =
     (let userData = userData\<lparr>Timeouts := Timeouts userData + 1\<rparr>;
          userData = userData\<lparr>Strikes := 0\<rparr>
      in if sint (TimeOutsBeforeBan cfg) \<le> sint (Timeouts userData)
         then (userData, banUser e user w)
         else (let w1 = logAction e user ''User timed out'' w
               in (userData, snd (updateUserData e user userData w1))))"

definition processUpload :: "env \<Rightarrow> Config \<Rightarrow> string \<Rightarrow> string \<Rightarrow> world \<Rightarrow> outcome \<times> world" where
  "processUpload e cfg sshKeyPath filePath w =
     (case fingerprintSSHKey e sshKeyPath of
        None \<Rightarrow> (Dropped CredentialUnreadable, w)
      | Some fingerprint \<Rightarrow>
     (case getUserData e fingerprint w of
        (Inl err, w1) \<Rightarrow> (Dropped err, w1)
      | (Inr userData, w1) \<Rightarrow>
     if \<not> checkFileType e cfg filePath then
       (let userData = userData\<lparr>Strikes := Strikes userData + 1\<rparr>;
            w2 = logAction e fingerprint ''Attempted to upload unsupported file type'' w1;
            (userData, w3) =
              (if sint (StrikesBeforeTimeOut cfg) \<le> sint (Strikes userData)
               then timeOutUser e cfg fingerprint userData w2 else (userData, w2));
            w4 = snd (updateUserData e fingerprint userData w3)
        in (RejectedUnsupportedType, w4))
     else
     (case calculateFileSize e filePath w1 of
        (Inl err, w2) \<Rightarrow> (Dropped err, w2)
      | (Inr fileSize, w2) \<Rightarrow>
     if sint (MaxUserUploadSize cfg) < sint (DailyUpload userData + fileSize) then
       (let userData = userData\<lparr>Strikes := Strikes userData + 1\<rparr>;
            w3 = logAction e fingerprint ''Exceeded daily upload size limit'' w2;
            (userData, w4) =
              (if sint (StrikesBeforeTimeOut cfg) \<le> sint (Strikes userData)
               then timeOutUser e cfg fingerprint userData w3 else (userData, w3));
            w5 = snd (updateUserData e fingerprint userData w4)
        in (RejectedSizeQuota, w5))
     else
     (case calculateAudioDuration e filePath w2 of
        (Inl err, w3) \<Rightarrow> (Dropped err, w3)
      | (Inr duration, w3) \<Rightarrow>
     if sint (MaxUserAirtime cfg) < sint (DailyAirtime userData + duration) then
       (let userData = userData\<lparr>Strikes := Strikes userData + 1\<rparr>;
            w4 = logAction e fingerprint ''Exceeded daily airtime limit'' w3;
            (userData, w5) =
              (if sint (StrikesBeforeTimeOut cfg) \<le> sint (Strikes userData)
               then timeOutUser e cfg fingerprint userData w4 else (userData, w4));
            w6 = snd (updateUserData e fingerprint userData w5)
        in (RejectedAirtimeQuota, w6))
     else
       (let userData = userData\<lparr>DailyUpload := DailyUpload userData + fileSize\<rparr>;
            userData = userData\<lparr>DailyAirtime := DailyAirtime userData + duration\<rparr>;
            userData = userData\<lparr>LastUpload := clock w3\<rparr>;
            destPath = Join e (StorageDirectory cfg) (Base e filePath);
            (ok, w4) = Rename e filePath destPath w3
        in if \<not> ok then (Dropped MoveFailed, w4)
           else (let w5 = logAction e fingerprint ''File uploaded successfully'' w4;
                     w6 = snd (updateUserData e fingerprint userData w5)
                 in (Admitted, w6)))))))"

text \<open>
  The block that \<^verbatim>\<open>processUpload\<close> repeats for each of its three rejections, with
  the action it logs as a parameter. It is not a function of the source: the proofs
  below go through it (lemma \<open>processUpload_strike\<close> shows that the three blocks are
  instances of it).
\<close>

definition strike :: "env \<Rightarrow> Config \<Rightarrow> string \<Rightarrow> string \<Rightarrow> UserData \<Rightarrow> world \<Rightarrow> world" where
  "strike e cfg fingerprint action userData w =
     (let userData = userData\<lparr>Strikes := Strikes userData + 1\<rparr>;
          w1 = logAction e fingerprint action w;
          (userData, w2) =
            (if sint (StrikesBeforeTimeOut cfg) \<le> sint (Strikes userData)
             then timeOutUser e cfg fingerprint userData w1 else (userData, w1))
      in snd (updateUserData e fingerprint userData w2))"

subsection \<open>The log tail\<close>

text \<open>
  The authentication log as \<^verbatim>\<open>monitorSSHLogs\<close> meets it: the lines the scanner
  yields until \<^verbatim>\<open>Scan\<close> returns false at the end of the file, and the lines that are
  appended to the file after that moment. \<open>None\<close> is a file that cannot be opened.
\<close>

record tailed =
  at_eof :: "string list"
  later :: "string list"

definition parseSSHLogLine :: "env \<Rightarrow> string \<Rightarrow> error + string \<times> string" where
  "parseSSHLogLine e line =
     (let matches = FindStringSubmatch e line
      in if length matches < 3 then Inl ParseFailed
         else (let fingerprint = matches ! 1; filePath = matches ! 2
               in Inr (fingerprint, filePath)))"

text \<open>The loop \<^verbatim>\<open>for scanner.Scan()\<close> over the lines the scanner yields.\<close>

fun scanLines :: "env \<Rightarrow> Config \<Rightarrow> string list \<Rightarrow> world \<Rightarrow> world" where
  "scanLines e cfg [] w = w"
| "scanLines e cfg (line # rest) w =
     (if Contains line ''scp'' \<and> Contains line ''Accepted publickey''
      then (case parseSSHLogLine e line of
              Inl err \<Rightarrow> scanLines e cfg rest w
            | Inr (fingerprint, filePath) \<Rightarrow>
                scanLines e cfg rest
                  (snd (processUpload e cfg (Join e (SSHKeyDir cfg) fingerprint) filePath w)))
      else scanLines e cfg rest w)"

text \<open>
  \<^verbatim>\<open>monitorSSHLogs\<close> opens the file (\<^verbatim>\<open>log.Fatalf\<close> when it cannot), runs the loop
  until \<^verbatim>\<open>Scan\<close> returns false, and returns.
\<close>

definition monitorSSHLogs :: "env \<Rightarrow> Config \<Rightarrow> tailed option \<Rightarrow> world \<Rightarrow> error + world" where
  "monitorSSHLogs e cfg logFile w =
     (case logFile of
        None \<Rightarrow> Inl OpenFailed
      | Some content \<Rightarrow> Inr (scanLines e cfg (at_eof content) w))"

subsection \<open>Properties of the ledger and of the calls\<close>

text \<open>Every row of the ledger satisfies \<open>P\<close>.\<close>

definition rows_ok :: "(stats_row \<Rightarrow> bool) \<Rightarrow> (string \<rightharpoonup> stats_row) \<Rightarrow> bool" where
  "rows_ok P t = (\<forall>u r. t u = Some r \<longrightarrow> P r)"

definition strikes_in_range :: "Config \<Rightarrow> (string \<rightharpoonup> stats_row) \<Rightarrow> bool" where
  "strikes_in_range cfg t =
     rows_ok (\<lambda>r. 0 \<le> sint (strikes r) \<and> sint (strikes r) < sint (StrikesBeforeTimeOut cfg)) t"

definition timeouts_in_range :: "Config \<Rightarrow> (string \<rightharpoonup> stats_row) \<Rightarrow> bool" where
  "timeouts_in_range cfg t =
     rows_ok (\<lambda>r. 0 \<le> sint (timeouts r) \<and> sint (timeouts r) < sint (TimeOutsBeforeBan cfg)) t"

text \<open>The calls that measure a file: its size (\<^verbatim>\<open>os.Stat\<close>) and its duration (ffprobe).\<close>

fun measures :: "call \<Rightarrow> bool" where
  "measures (OsStat p) = True"
| "measures (ExecFfprobe p) = True"
| "measures c = False"

text \<open>The three decisions that reject a candidate.\<close>

fun rejected :: "outcome \<Rightarrow> bool" where
  "rejected RejectedUnsupportedType = True"
| "rejected RejectedSizeQuota = True"
| "rejected RejectedAirtimeQuota = True"
| "rejected out = False"

subsection \<open>Concrete scenarios\<close>

text \<open>
  An environment without faults in which the key \<^verbatim>\<open>/keys/alice.pub\<close> has the
  fingerprint \<^verbatim>\<open>alice\<close> and no other key can be read. Its library functions agree
  with Go's on the paths and extensions used below.
\<close>

definition std_env :: env where
  "std_env =
     \<lparr>fingerprintSSHKey = (\<lambda>p. if p = ''/keys/alice.pub'' then Some ''alice'' else None),
      EqualFold = (\<lambda>s t. s = t),
      Base = (\<lambda>p. rev (takeWhile (\<lambda>c. c \<noteq> CHR ''/'') (rev p))),
      Join = (\<lambda>dir name. dir @ ''/'' @ name),
      FindStringSubmatch = (\<lambda>line. []),
      ScanInt = (\<lambda>verb str. None),
      faults = (\<lambda>n c. False)\<rparr>"

text \<open>Quotas of 100 MB and 1000 s, a time-out at 3 strikes, a ban at 2 time-outs.\<close>

definition cfg_A :: Config where
  "cfg_A =
     \<lparr>MaxUserUploadSize = 100, AcceptedUploadFileTypes = [''.mp3''], MaxUserAirtime = 1000,
      SSHKeyDir = ''/keys'', AccessLog = ''/log'', InboundDirectory = ''/in'',
      StorageDirectory = ''/store'', StrikesBeforeTimeOut = 3, TimeOutsBeforeBan = 2\<rparr>"

text \<open>
  An empty ledger and four files: a 40 MB mp3 for which ffprobe prints 120 seconds, a
  file of 10 bytes with an extension that is not accepted, a 200 MB mp3, and an mp3 of
  1000 bytes.
\<close>

definition world_A :: world where
  "world_A =
     \<lparr>user_stats = Map.empty,
      files = [''/in/a.mp3'' \<mapsto> \<lparr>fsize = 41943040, probe = Some ''120.000000''\<rparr>,
               ''/in/b.exe'' \<mapsto> \<lparr>fsize = 10, probe = None\<rparr>,
               ''/in/c.mp3'' \<mapsto> \<lparr>fsize = 209715200, probe = Some ''30.000000''\<rparr>,
               ''/in/d.mp3'' \<mapsto> \<lparr>fsize = 1000, probe = Some ''0.050000''\<rparr>],
      access_log = [], clock = 7, calls = []\<rparr>"

text \<open>The ledger in which alice has two strikes and no time-out.\<close>

definition world_B :: world where
  "world_B =
     world_A\<lparr>user_stats :=
       [''alice'' \<mapsto> \<lparr>strikes = 2, timeouts = 0, daily_upload = 0, daily_airtime = 0,
                        last_upload = None\<rparr>]\<rparr>"

text \<open>The ledger in which alice has two strikes and one time-out.\<close>

definition world_C :: world where
  "world_C =
     world_A\<lparr>user_stats :=
       [''alice'' \<mapsto> \<lparr>strikes = 2, timeouts = 1, daily_upload = 0, daily_airtime = 0,
                        last_upload = None\<rparr>]\<rparr>"

text \<open>The ledger in which alice has used 1001 seconds of airtime.\<close>

definition world_D :: world where
  "world_D =
     world_A\<lparr>user_stats :=
       [''alice'' \<mapsto> \<lparr>strikes = 0, timeouts = 0, daily_upload = 0, daily_airtime = 1001,
                        last_upload = None\<rparr>]\<rparr>"

text \<open>Configurations: a ban threshold of 0, a negative size quota, thresholds of 1.\<close>

definition cfg_ban0 :: Config where
  "cfg_ban0 = cfg_A\<lparr>TimeOutsBeforeBan := 0\<rparr>"

definition cfg_neg :: Config where
  "cfg_neg = cfg_A\<lparr>MaxUserUploadSize := - 1\<rparr>"

definition cfg_one :: Config where
  "cfg_one = cfg_A\<lparr>StrikesBeforeTimeOut := 1, TimeOutsBeforeBan := 1\<rparr>"

text \<open>Environments in which the DELETE statements, or the calls of \<^verbatim>\<open>os.Rename\<close>, fail.\<close>

definition env_delete_fails :: env where
  "env_delete_fails = std_env\<lparr>faults := (\<lambda>n c. c = DbDelete ''alice'')\<rparr>"

definition env_rename_fails :: env where
  "env_rename_fails = std_env\<lparr>faults := (\<lambda>n c. c = OsRename ''/in/a.mp3'' ''/store/a.mp3'')\<rparr>"

text \<open>
  A line of the authentication log for a transfer of \<^verbatim>\<open>/in/a.mp3\<close> with the key
  \<^verbatim>\<open>alice.pub\<close>, and an environment whose \<open>FindStringSubmatch\<close> gives the match
  and the two groups of the regular expression on that line.
\<close>

definition scp_line :: string where
  "scp_line = ''Accepted publickey for al: RSA SHA256:alice.pub scp: '' @ [CHR 0x27] @ ''/in/a.mp3'' @ [CHR 0x27]"

definition env_log :: env where
  "env_log =
     std_env\<lparr>FindStringSubmatch :=
       (\<lambda>line. if line = scp_line then [scp_line, ''alice.pub'', ''/in/a.mp3''] else [])\<rparr>"

subsection \<open>Results about single functions\<close>

lemmas model_defs =
  processUpload_def getUserData_def updateUserData_def logAction_def WriteFile_def Rename_def
  extcall_def calculateFileSize_def calculateAudioDuration_def checkFileType_def
  timeOutUser_def banUser_def Sscanf_int_def godiv_def Ext_def zeroUserData_def
  default_row_def row_of_def Let_def signed_divide_int_def

lemmas scenario_defs =
  std_env_def cfg_A_def world_A_def world_B_def world_C_def world_D_def cfg_ban0_def
  cfg_neg_def cfg_one_def env_delete_fails_def env_rename_fails_def

lemma extcall_frame:
  "user_stats (snd (extcall e c w)) = user_stats w"
  "files (snd (extcall e c w)) = files w"
  "access_log (snd (extcall e c w)) = access_log w"
  "clock (snd (extcall e c w)) = clock w"
  "calls (snd (extcall e c w)) = calls w @ [c]"
  by (simp_all add: extcall_def)

lemma logAction_frame [simp]:
  "user_stats (logAction e u a w) = user_stats w"
  "files (logAction e u a w) = files w"
  "clock (logAction e u a w) = clock w"
  "calls (logAction e u a w) = calls w @ [IoWriteFile]"
  by (simp_all add: logAction_def WriteFile_def extcall_def Let_def)

lemma logAction_overwrites:
  "\<not> faults e (length (calls w)) IoWriteFile
   \<Longrightarrow> access_log (logAction e user action w) = [(clock w, user, action)]"
  by (simp add: logAction_def WriteFile_def extcall_def Let_def)

lemma updateUserData_frame [simp]:
  "files (snd (updateUserData e u ud w)) = files w"
  "clock (snd (updateUserData e u ud w)) = clock w"
  "access_log (snd (updateUserData e u ud w)) = access_log w"
  "calls (snd (updateUserData e u ud w)) = calls w @ [DbUpdate u]"
  by (simp_all add: updateUserData_def extcall_def Let_def split: option.splits)

lemma updateUserData_table:
  "user_stats (snd (updateUserData e u ud w)) =
     (if \<not> faults e (length (calls w)) (DbUpdate u) \<and> user_stats w u \<noteq> None
      then (user_stats w)(u \<mapsto> row_of ud) else user_stats w)"
  by (auto simp add: updateUserData_def extcall_def Let_def split: option.splits)

lemma banUser_frame [simp]:
  "files (banUser e u w) = files w"
  "clock (banUser e u w) = clock w"
  "calls (banUser e u w) = calls w @ [DbDelete u, IoWriteFile]"
  by (simp_all add: banUser_def extcall_def Let_def)

lemma banUser_table:
  "user_stats (banUser e u w) =
     (if faults e (length (calls w)) (DbDelete u) then user_stats w else (user_stats w)(u := None))"
  by (simp add: banUser_def extcall_def Let_def)

lemma timeOutUser_fst [simp]:
  "fst (timeOutUser e cfg u ud w) = ud\<lparr>Strikes := 0, Timeouts := Timeouts ud + 1\<rparr>"
  by (simp add: timeOutUser_def Let_def)

lemma timeOutUser_frame [simp]:
  "files (snd (timeOutUser e cfg u ud w)) = files w"
  "clock (snd (timeOutUser e cfg u ud w)) = clock w"
  "filter measures (calls (snd (timeOutUser e cfg u ud w))) = filter measures (calls w)"
  by (simp_all add: timeOutUser_def Let_def)

lemma getUserData_frame [simp]:
  "files (snd (getUserData e u w)) = files w"
  "clock (snd (getUserData e u w)) = clock w"
  "access_log (snd (getUserData e u w)) = access_log w"
  "filter measures (calls (snd (getUserData e u w))) = filter measures (calls w)"
  by (simp_all add: getUserData_def extcall_def Let_def split: option.splits)

lemma getUserData_Inl:
  assumes "getUserData e u w = (Inl err, w1)"
  shows "user_stats w1 = user_stats w"
  using assms by (auto simp add: getUserData_def extcall_def Let_def split: option.splits if_splits)

lemma getUserData_Inr:
  assumes "getUserData e u w = (Inr ud, w1)"
  shows "\<exists>r. user_stats w1 u = Some r
           \<and> Strikes ud = strikes r \<and> Timeouts ud = timeouts r
           \<and> DailyUpload ud = daily_upload r \<and> DailyAirtime ud = daily_airtime r
           \<and> (user_stats w1 = user_stats w
                \<or> (user_stats w u = None \<and> r = default_row
                     \<and> user_stats w1 = (user_stats w)(u \<mapsto> default_row)))"
  using assms
  by (auto simp add: getUserData_def extcall_def Let_def zeroUserData_def default_row_def
      split: option.splits if_splits)

lemma getUserData_others:
  assumes "getUserData e fp w = (res, w1)" and "u \<noteq> fp"
  shows "user_stats w1 u = user_stats w u"
  using assms
  by (auto simp add: getUserData_def extcall_def Let_def split: option.splits if_splits)

lemma calculateFileSize_snd [simp]:
  "snd (calculateFileSize e p w) = w\<lparr>calls := calls w @ [OsStat p]\<rparr>"
  by (simp add: calculateFileSize_def extcall_def Let_def split: option.splits)

lemma calculateFileSize_Inr:
  assumes "fst (calculateFileSize e path w) = Inr fileSize"
  shows "\<exists>f. files w path = Some f \<and> fileSize = godiv (fsize f) (1024 * 1024)"
  using assms
  by (auto simp add: calculateFileSize_def extcall_def Let_def split: option.splits if_splits)

lemma calculateAudioDuration_snd [simp]:
  "snd (calculateAudioDuration e p w) = w\<lparr>calls := calls w @ [ExecFfprobe p]\<rparr>"
  by (simp add: calculateAudioDuration_def extcall_def Let_def split: option.splits)

lemma calculateAudioDuration_zero:
  "fst (calculateAudioDuration e p w) = Inr d \<Longrightarrow> d = 0"
  by (auto simp add: calculateAudioDuration_def extcall_def Let_def Sscanf_int_def
      split: option.splits if_splits)

lemma Rename_frame [simp]:
  "user_stats (snd (Rename e a b w)) = user_stats w"
  "clock (snd (Rename e a b w)) = clock w"
  "access_log (snd (Rename e a b w)) = access_log w"
  "calls (snd (Rename e a b w)) = calls w @ [OsRename a b]"
  by (simp_all add: Rename_def extcall_def Let_def split: option.splits)

lemma Rename_failed:
  "\<not> fst (Rename e a b w) \<Longrightarrow> files (snd (Rename e a b w)) = files w"
  by (auto simp add: Rename_def extcall_def Let_def split: option.splits if_splits)

lemma monitorSSHLogs_ignores_later:
  "monitorSSHLogs e cfg (Some \<lparr>at_eof = ls, later = ms\<rparr>) w
     = monitorSSHLogs e cfg (Some \<lparr>at_eof = ls, later = []\<rparr>) w"
  by (simp add: monitorSSHLogs_def)

subsection \<open>Integers\<close>

lemma sint_succ:
  fixes x y :: goint
  assumes "sint x < sint y"
  shows "sint (x + 1) = sint x + 1"
proof -
  have "sint y < 2 ^ 63" using sint_lt [of y] by simp
  moreover have "- (2 ^ 63) \<le> sint x" using sint_ge [of x] by simp
  ultimately have "signed_take_bit 63 (sint x + 1) = sint x + 1"
    using assms by (intro signed_take_bit_int_eq_self) simp_all
  then show ?thesis by (simp add: sint_word_ariths)
qed

lemma godiv_small:
  assumes "0 \<le> sint x" and "sint x < 1048576"
  shows "godiv x (1024 * 1024) = 0"
  using assms by (simp add: godiv_def signed_divide_int_def)

lemma sint_godiv:
  assumes "0 \<le> sint x"
  shows "sint (godiv x (1024 * 1024)) = sint x div 1048576"
proof -
  have lt: "sint x < 2 ^ 63" using sint_lt [of x] by simp
  have q: "sint x sdiv 1048576 = sint x div 1048576"
    using assms by (auto simp add: signed_divide_int_eq_divide_int sgn_if)
  have "0 \<le> sint x div 1048576" using assms by simp
  moreover have "sint x div 1048576 \<le> sint x"
    using assms by simp
  ultimately have "signed_take_bit 63 (sint x div 1048576) = sint x div 1048576"
    using lt by (intro signed_take_bit_int_eq_self) simp_all
  then show ?thesis using q by (simp add: godiv_def sint_sbintrunc')
qed

subsection \<open>The rejection block\<close>

lemma strike_frame [simp]:
  "files (strike e cfg fp a ud w) = files w"
  "clock (strike e cfg fp a ud w) = clock w"
  "filter measures (calls (strike e cfg fp a ud w)) = filter measures (calls w)"
  by (simp_all add: strike_def Let_def case_prod_beta)

lemma strike_calls:
  "\<exists>cs. calls (strike e cfg fp a ud w) = calls w @ cs"
  by (simp add: strike_def timeOutUser_def Let_def case_prod_beta)

lemma strike_table_cases:
  "user_stats (strike e cfg fp a ud w) = user_stats w
   \<or> (sint (StrikesBeforeTimeOut cfg) \<le> sint (Strikes ud + 1)
        \<and> sint (TimeOutsBeforeBan cfg) \<le> sint (Timeouts ud + 1)
        \<and> user_stats (strike e cfg fp a ud w) = (user_stats w)(fp := None))
   \<or> (\<not> sint (StrikesBeforeTimeOut cfg) \<le> sint (Strikes ud + 1)
        \<and> user_stats w fp \<noteq> None
        \<and> user_stats (strike e cfg fp a ud w) = (user_stats w)(fp \<mapsto> row_of (ud\<lparr>Strikes := Strikes ud + 1\<rparr>)))
   \<or> (sint (StrikesBeforeTimeOut cfg) \<le> sint (Strikes ud + 1)
        \<and> (\<not> sint (TimeOutsBeforeBan cfg) \<le> sint (Timeouts ud + 1) \<or> (\<exists>n. faults e n (DbDelete fp)))
        \<and> user_stats w fp \<noteq> None
        \<and> user_stats (strike e cfg fp a ud w) =
            (user_stats w)(fp \<mapsto> row_of (ud\<lparr>Strikes := 0, Timeouts := Timeouts ud + 1\<rparr>)))"
  by (auto simp add: strike_def timeOutUser_def Let_def updateUserData_table banUser_table
      case_prod_beta row_of_def)

lemma strike_ban:
  assumes "sint (StrikesBeforeTimeOut cfg) \<le> sint (Strikes ud + 1)"
      and "sint (TimeOutsBeforeBan cfg) \<le> sint (Timeouts ud + 1)"
      and "\<forall>n. \<not> faults e n (DbDelete fp)"
  shows "user_stats (strike e cfg fp a ud w) = (user_stats w)(fp := None)"
    and "calls (strike e cfg fp a ud w) =
           calls w @ [IoWriteFile, DbDelete fp, IoWriteFile, DbUpdate fp]"
  using assms
  by (simp_all add: strike_def timeOutUser_def Let_def updateUserData_table banUser_table)

lemma strike_plus:
  assumes "\<not> sint (StrikesBeforeTimeOut cfg) \<le> sint (Strikes ud + 1)"
      and "\<forall>n. \<not> faults e n (DbUpdate fp)"
      and "user_stats w fp = Some r"
  shows "user_stats (strike e cfg fp a ud w) =
           (user_stats w)(fp \<mapsto> row_of (ud\<lparr>Strikes := Strikes ud + 1\<rparr>))"
  using assms
  by (simp add: strike_def Let_def updateUserData_table)

lemma strike_reset:
  assumes "sint (StrikesBeforeTimeOut cfg) \<le> sint (Strikes ud + 1)"
      and "\<forall>n. \<not> faults e n (DbUpdate fp)"
  shows "\<forall>r. user_stats (strike e cfg fp a ud w) fp = Some r \<longrightarrow> strikes r = 0"
  using assms
  by (simp add: strike_def timeOutUser_def Let_def updateUserData_table banUser_table row_of_def)

lemma strike_quota:
  assumes "user_stats v fp = Some row"
      and "daily_upload row = DailyUpload ud" and "daily_airtime row = DailyAirtime ud"
  shows "(\<forall>r. user_stats (strike e cfg fp a ud v) fp = Some r
              \<longrightarrow> daily_upload r = DailyUpload ud \<and> daily_airtime r = DailyAirtime ud)
       \<and> (\<forall>u. u \<noteq> fp \<longrightarrow> user_stats (strike e cfg fp a ud v) u = user_stats v u)"
  using strike_table_cases [of e cfg fp a ud v] assms
  by (elim disjE conjE) (simp_all add: row_of_def)

lemma rows_ok_upd: "rows_ok P t \<Longrightarrow> P r \<Longrightarrow> rows_ok P (t(u \<mapsto> r))"
  by (simp add: rows_ok_def)

lemma rows_ok_del: "rows_ok P t \<Longrightarrow> rows_ok P (t(u := None))"
  by (simp add: rows_ok_def)

lemma rows_ok_row: "rows_ok P t \<Longrightarrow> t u = Some r \<Longrightarrow> P r"
  by (simp add: rows_ok_def)

subsection \<open>The branches of an evaluation\<close>

lemma processUpload_strike:
  "processUpload e cfg sshKeyPath filePath w =
     (case fingerprintSSHKey e sshKeyPath of
        None \<Rightarrow> (Dropped CredentialUnreadable, w)
      | Some fingerprint \<Rightarrow>
     (case getUserData e fingerprint w of
        (Inl err, w1) \<Rightarrow> (Dropped err, w1)
      | (Inr userData, w1) \<Rightarrow>
     if \<not> checkFileType e cfg filePath then
       (RejectedUnsupportedType,
        strike e cfg fingerprint ''Attempted to upload unsupported file type'' userData w1)
     else
     (case calculateFileSize e filePath w1 of
        (Inl err, w2) \<Rightarrow> (Dropped err, w2)
      | (Inr fileSize, w2) \<Rightarrow>
     if sint (MaxUserUploadSize cfg) < sint (DailyUpload userData + fileSize) then
       (RejectedSizeQuota,
        strike e cfg fingerprint ''Exceeded daily upload size limit'' userData w2)
     else
     (case calculateAudioDuration e filePath w2 of
        (Inl err, w3) \<Rightarrow> (Dropped err, w3)
      | (Inr duration, w3) \<Rightarrow>
     if sint (MaxUserAirtime cfg) < sint (DailyAirtime userData + duration) then
       (RejectedAirtimeQuota,
        strike e cfg fingerprint ''Exceeded daily airtime limit'' userData w3)
     else
       (let userData = userData\<lparr>DailyUpload := DailyUpload userData + fileSize,
                                 DailyAirtime := DailyAirtime userData + duration,
                                 LastUpload := clock w3\<rparr>;
            destPath = Join e (StorageDirectory cfg) (Base e filePath);
            (ok, w4) = Rename e filePath destPath w3
        in if \<not> ok then (Dropped MoveFailed, w4)
           else (Admitted,
                 snd (updateUserData e fingerprint userData
                        (logAction e fingerprint ''File uploaded successfully'' w4))))))))"
  by (simp add: processUpload_def strike_def Let_def
      split: option.splits prod.splits sum.splits)

lemma processUpload_no_key:
  assumes "fingerprintSSHKey e key = None"
  shows "processUpload e cfg key path w = (Dropped CredentialUnreadable, w)"
  using assms by (simp add: processUpload_def)

lemma processUpload_no_ledger:
  assumes "fingerprintSSHKey e key = Some fp" and "getUserData e fp w = (Inl err, w1)"
  shows "processUpload e cfg key path w = (Dropped err, w1)"
  using assms by (simp add: processUpload_def)

lemma pu_type:
  assumes "fingerprintSSHKey e key = Some fp" and "getUserData e fp w = (Inr ud, w1)"
      and "\<not> checkFileType e cfg path"
  shows "processUpload e cfg key path w =
           (RejectedUnsupportedType,
            strike e cfg fp ''Attempted to upload unsupported file type'' ud w1)"
  using assms by (simp add: processUpload_strike)

lemma pu_size_err:
  assumes "fingerprintSSHKey e key = Some fp" and "getUserData e fp w = (Inr ud, w1)"
      and "checkFileType e cfg path"
      and "fst (calculateFileSize e path w1) = Inl err"
  shows "processUpload e cfg key path w = (Dropped err, w1\<lparr>calls := calls w1 @ [OsStat path]\<rparr>)"
  using assms by (simp add: processUpload_strike case_prod_beta)

lemma pu_size:
  assumes "fingerprintSSHKey e key = Some fp" and "getUserData e fp w = (Inr ud, w1)"
      and "checkFileType e cfg path"
      and "fst (calculateFileSize e path w1) = Inr fileSize"
      and "sint (MaxUserUploadSize cfg) < sint (DailyUpload ud + fileSize)"
  shows "processUpload e cfg key path w =
           (RejectedSizeQuota,
            strike e cfg fp ''Exceeded daily upload size limit'' ud
              (w1\<lparr>calls := calls w1 @ [OsStat path]\<rparr>))"
  using assms by (simp add: processUpload_strike case_prod_beta)

lemma pu_dur_err:
  assumes "fingerprintSSHKey e key = Some fp" and "getUserData e fp w = (Inr ud, w1)"
      and "checkFileType e cfg path"
      and "fst (calculateFileSize e path w1) = Inr fileSize"
      and "\<not> sint (MaxUserUploadSize cfg) < sint (DailyUpload ud + fileSize)"
      and "fst (calculateAudioDuration e path (w1\<lparr>calls := calls w1 @ [OsStat path]\<rparr>)) = Inl err"
  shows "processUpload e cfg key path w =
           (Dropped err, w1\<lparr>calls := calls w1 @ [OsStat path, ExecFfprobe path]\<rparr>)"
  using assms by (simp add: processUpload_strike case_prod_beta)

lemma pu_air:
  assumes "fingerprintSSHKey e key = Some fp" and "getUserData e fp w = (Inr ud, w1)"
      and "checkFileType e cfg path"
      and "fst (calculateFileSize e path w1) = Inr fileSize"
      and "\<not> sint (MaxUserUploadSize cfg) < sint (DailyUpload ud + fileSize)"
      and "fst (calculateAudioDuration e path (w1\<lparr>calls := calls w1 @ [OsStat path]\<rparr>)) = Inr duration"
      and "sint (MaxUserAirtime cfg) < sint (DailyAirtime ud + duration)"
  shows "processUpload e cfg key path w =
           (RejectedAirtimeQuota,
            strike e cfg fp ''Exceeded daily airtime limit'' ud
              (w1\<lparr>calls := calls w1 @ [OsStat path, ExecFfprobe path]\<rparr>))"
  using assms by (simp add: processUpload_strike case_prod_beta)

lemma pu_pass:
  assumes "fingerprintSSHKey e key = Some fp" and "getUserData e fp w = (Inr ud, w1)"
      and "checkFileType e cfg path"
      and "fst (calculateFileSize e path w1) = Inr fileSize"
      and "\<not> sint (MaxUserUploadSize cfg) < sint (DailyUpload ud + fileSize)"
      and "fst (calculateAudioDuration e path (w1\<lparr>calls := calls w1 @ [OsStat path]\<rparr>)) = Inr duration"
      and "\<not> sint (MaxUserAirtime cfg) < sint (DailyAirtime ud + duration)"
  shows "processUpload e cfg key path w =
           (let moved = Rename e path (Join e (StorageDirectory cfg) (Base e path))
                          (w1\<lparr>calls := calls w1 @ [OsStat path, ExecFfprobe path]\<rparr>)
            in if \<not> fst moved then (Dropped MoveFailed, snd moved)
               else (Admitted,
                     snd (updateUserData e fp
                            (ud\<lparr>DailyUpload := DailyUpload ud + fileSize,
                                DailyAirtime := DailyAirtime ud + duration,
                                LastUpload := clock w1\<rparr>)
                            (logAction e fp ''File uploaded successfully'' (snd moved)))))"
  using assms by (simp add: processUpload_strike case_prod_beta Let_def)

lemma processUpload_outcome:
  assumes "fingerprintSSHKey e key = Some fp" and "getUserData e fp w = (Inr ud, w1)"
  shows "fst (processUpload e cfg key path w) =
     (if \<not> checkFileType e cfg path then RejectedUnsupportedType
      else case fst (calculateFileSize e path w1) of
        Inl err \<Rightarrow> Dropped err
      | Inr fileSize \<Rightarrow>
          if sint (MaxUserUploadSize cfg) < sint (DailyUpload ud + fileSize) then RejectedSizeQuota
          else case fst (calculateAudioDuration e path (w1\<lparr>calls := calls w1 @ [OsStat path]\<rparr>)) of
            Inl err \<Rightarrow> Dropped err
          | Inr duration \<Rightarrow>
              if sint (MaxUserAirtime cfg) < sint (DailyAirtime ud + duration)
              then RejectedAirtimeQuota
              else if fst (Rename e path (Join e (StorageDirectory cfg) (Base e path))
                             (w1\<lparr>calls := calls w1 @ [OsStat path, ExecFfprobe path]\<rparr>))
                   then Admitted else Dropped MoveFailed)"
  using assms
  by (simp add: processUpload_strike case_prod_beta Let_def split: sum.splits)

lemma pu_rejected:
  assumes fp: "fingerprintSSHKey e key = Some fp"
      and gd: "getUserData e fp w = (Inr ud, w1)"
      and res: "processUpload e cfg key path w = (out, w')"
      and rej: "rejected out"
  shows "\<exists>a cs. w' = strike e cfg fp a ud (w1\<lparr>calls := calls w1 @ cs\<rparr>)"
proof (cases "checkFileType e cfg path")
  case False
  from pu_type [OF fp gd False] res
  have "w' = strike e cfg fp ''Attempted to upload unsupported file type'' ud
               (w1\<lparr>calls := calls w1 @ []\<rparr>)"
    by simp
  then show ?thesis by blast
next
  case True
  note tyok = this
  show ?thesis
  proof (cases "fst (calculateFileSize e path w1)")
    case (Inl err)
    from pu_size_err [OF fp gd tyok Inl] res rej show ?thesis by auto
  next
    case (Inr fileSize)
    note sz = this
    show ?thesis
    proof (cases "sint (MaxUserUploadSize cfg) < sint (DailyUpload ud + fileSize)")
      case True
      from pu_size [OF fp gd tyok sz True] res
      have "w' = strike e cfg fp ''Exceeded daily upload size limit'' ud
                   (w1\<lparr>calls := calls w1 @ [OsStat path]\<rparr>)"
        by simp
      then show ?thesis by blast
    next
      case False
      note size_ok = this
      show ?thesis
      proof (cases "fst (calculateAudioDuration e path (w1\<lparr>calls := calls w1 @ [OsStat path]\<rparr>))")
        case (Inl err)
        from pu_dur_err [OF fp gd tyok sz size_ok Inl] res rej show ?thesis by auto
      next
        case (Inr duration)
        note dur = this
        show ?thesis
        proof (cases "sint (MaxUserAirtime cfg) < sint (DailyAirtime ud + duration)")
          case True
          from pu_air [OF fp gd tyok sz size_ok dur True] res
          have "w' = strike e cfg fp ''Exceeded daily airtime limit'' ud
                       (w1\<lparr>calls := calls w1 @ [OsStat path, ExecFfprobe path]\<rparr>)"
            by simp
          then show ?thesis by blast
        next
          case False
          from pu_pass [OF fp gd tyok sz size_ok dur False] res rej
          show ?thesis by (auto simp add: Let_def split: if_splits)
        qed
      qed
    qed
  qed
qed

lemma processUpload_table:
  assumes fp: "fingerprintSSHKey e key = Some fp"
      and gd: "getUserData e fp w = (Inr ud, w1)"
      and res: "processUpload e cfg key path w = (out, w')"
  shows "user_stats w' = user_stats w1
   \<or> (rejected out
        \<and> sint (StrikesBeforeTimeOut cfg) \<le> sint (Strikes ud + 1)
        \<and> sint (TimeOutsBeforeBan cfg) \<le> sint (Timeouts ud + 1)
        \<and> user_stats w' = (user_stats w1)(fp := None))
   \<or> (rejected out
        \<and> \<not> sint (StrikesBeforeTimeOut cfg) \<le> sint (Strikes ud + 1)
        \<and> user_stats w' = (user_stats w1)(fp \<mapsto> row_of (ud\<lparr>Strikes := Strikes ud + 1\<rparr>)))
   \<or> (rejected out
        \<and> sint (StrikesBeforeTimeOut cfg) \<le> sint (Strikes ud + 1)
        \<and> (\<not> sint (TimeOutsBeforeBan cfg) \<le> sint (Timeouts ud + 1) \<or> (\<exists>n. faults e n (DbDelete fp)))
        \<and> user_stats w' =
            (user_stats w1)(fp \<mapsto> row_of (ud\<lparr>Strikes := 0, Timeouts := Timeouts ud + 1\<rparr>)))
   \<or> (out = Admitted
        \<and> (\<exists>fileSize duration. fst (calculateFileSize e path w1) = Inr fileSize
              \<and> user_stats w' =
              (user_stats w1)(fp \<mapsto> row_of (ud\<lparr>DailyUpload := DailyUpload ud + fileSize,
                                                DailyAirtime := DailyAirtime ud + duration,
                                                LastUpload := clock w1\<rparr>))))"
    (is "?same \<or> ?ban \<or> ?plus \<or> ?reset \<or> ?adm")
proof -
  have struck: "?same \<or> ?ban \<or> ?plus \<or> ?reset"
    if "rejected out" and "w' = strike e cfg fp a ud v" and "user_stats v = user_stats w1" for a v
    using strike_table_cases [of e cfg fp a ud v] that by auto
  show ?thesis
  proof (cases "checkFileType e cfg path")
    case False
    from pu_type [OF fp gd False] res
    have "out = RejectedUnsupportedType"
      and "w' = strike e cfg fp ''Attempted to upload unsupported file type'' ud w1"
      by simp_all
    then show ?thesis using struck by simp
  next
    case True
    show ?thesis
    proof (cases "fst (calculateFileSize e path w1)")
      case (Inl err)
      from pu_size_err [OF fp gd True Inl] res show ?thesis by auto
    next
      case (Inr fileSize)
      show ?thesis
      proof (cases "sint (MaxUserUploadSize cfg) < sint (DailyUpload ud + fileSize)")
        case True
        from pu_size [OF fp gd \<open>checkFileType e cfg path\<close> Inr True] res
        have "out = RejectedSizeQuota"
          and "w' = strike e cfg fp ''Exceeded daily upload size limit'' ud
                      (w1\<lparr>calls := calls w1 @ [OsStat path]\<rparr>)"
          by simp_all
        then show ?thesis using struck by simp
      next
        case False
        note size_ok = this
        show ?thesis
        proof (cases "fst (calculateAudioDuration e path (w1\<lparr>calls := calls w1 @ [OsStat path]\<rparr>))")
          case (Inl err)
          from pu_dur_err [OF fp gd \<open>checkFileType e cfg path\<close> Inr size_ok Inl] res
          show ?thesis by auto
        next
          case (Inr duration)
          note dur = this
          show ?thesis
          proof (cases "sint (MaxUserAirtime cfg) < sint (DailyAirtime ud + duration)")
            case True
            from pu_air [OF fp gd \<open>checkFileType e cfg path\<close> \<open>fst (calculateFileSize e path w1) = Inr fileSize\<close> size_ok dur True] res
            have "out = RejectedAirtimeQuota"
              and "w' = strike e cfg fp ''Exceeded daily airtime limit'' ud
                          (w1\<lparr>calls := calls w1 @ [OsStat path, ExecFfprobe path]\<rparr>)"
              by simp_all
            then show ?thesis using struck by simp
          next
            case False
            let ?moved = "Rename e path (Join e (StorageDirectory cfg) (Base e path))
                            (w1\<lparr>calls := calls w1 @ [OsStat path, ExecFfprobe path]\<rparr>)"
            let ?ud = "ud\<lparr>DailyUpload := DailyUpload ud + fileSize,
                           DailyAirtime := DailyAirtime ud + duration,
                           LastUpload := clock w1\<rparr>"
            from pu_pass [OF fp gd \<open>checkFileType e cfg path\<close> \<open>fst (calculateFileSize e path w1) = Inr fileSize\<close> size_ok dur False] res
            have "w' = snd ?moved
                \<or> (out = Admitted
                     \<and> w' = snd (updateUserData e fp ?ud
                                   (logAction e fp ''File uploaded successfully'' (snd ?moved))))"
              by (auto simp add: Let_def split: if_splits)
            then show ?thesis
            proof
              assume "w' = snd ?moved"
              then show ?thesis by simp
            next
              assume a: "out = Admitted
                     \<and> w' = snd (updateUserData e fp ?ud
                                   (logAction e fp ''File uploaded successfully'' (snd ?moved)))"
              then have "user_stats w' = user_stats w1
                  \<or> user_stats w' = (user_stats w1)(fp \<mapsto> row_of ?ud)"
                by (simp add: updateUserData_table)
              with a \<open>fst (calculateFileSize e path w1) = Inr fileSize\<close> show ?thesis by blast
            qed
          qed
        qed
      qed
    qed
  qed
qed

lemma processUpload_files:
  assumes fp: "fingerprintSSHKey e key = Some fp"
      and gd: "getUserData e fp w = (Inr ud, w1)"
      and res: "processUpload e cfg key path w = (out, w')"
      and out: "out \<noteq> Admitted"
  shows "files w' = files w"
proof -
  from getUserData_frame(1) [of e fp w] gd have f1: "files w1 = files w" by simp
  show ?thesis
  proof (cases "rejected out")
    case True
    from pu_rejected [OF fp gd res True] f1 show ?thesis by auto
  next
    case False
    have nt: "checkFileType e cfg path"
    proof (rule ccontr)
      assume "\<not> checkFileType e cfg path"
      from pu_type [OF fp gd this] res False show False by simp
    qed
    show ?thesis
    proof (cases "fst (calculateFileSize e path w1)")
      case (Inl err)
      from pu_size_err [OF fp gd nt Inl] res f1 show ?thesis by auto
    next
      case (Inr fileSize)
      note sz = this
      have size_ok: "\<not> sint (MaxUserUploadSize cfg) < sint (DailyUpload ud + fileSize)"
      proof
        assume "sint (MaxUserUploadSize cfg) < sint (DailyUpload ud + fileSize)"
        from pu_size [OF fp gd nt sz this] res False show False by simp
      qed
      show ?thesis
      proof (cases "fst (calculateAudioDuration e path (w1\<lparr>calls := calls w1 @ [OsStat path]\<rparr>))")
        case (Inl err)
        from pu_dur_err [OF fp gd nt sz size_ok Inl] res f1 show ?thesis by auto
      next
        case (Inr duration)
        note dur = this
        have air_ok: "\<not> sint (MaxUserAirtime cfg) < sint (DailyAirtime ud + duration)"
        proof
          assume "sint (MaxUserAirtime cfg) < sint (DailyAirtime ud + duration)"
          from pu_air [OF fp gd nt sz size_ok dur this] res False show False by simp
        qed
        from pu_pass [OF fp gd nt sz size_ok dur air_ok] res out f1
        show ?thesis
          by (auto simp add: Let_def Rename_failed split: if_splits)
      qed
    qed
  qed
qed

subsection \<open>The claims\<close>

text \<open>
  C1. If the strike threshold is at least 1 and every row of the ledger has its strikes
  in \<open>[0, StrikesBeforeTimeOut)\<close> before an evaluation (as in the empty ledger), the
  same holds of every row after it, whatever the candidate, the outcome and the faults
  of the environment: a row that \<^verbatim>\<open>getUserData\<close> creates starts at 0, and a strike
  that reaches the threshold is reset to 0 by \<^verbatim>\<open>timeOutUser\<close> before
  \<^verbatim>\<open>updateUserData\<close> writes the row. In particular, after a rejection whose
  increment reaches the threshold, the row of the identity (where the ledger writes
  went through and the identity was not banned) has 0 strikes.
\<close>

theorem strikes_stay_below_threshold:
  assumes thr: "1 \<le> sint (StrikesBeforeTimeOut cfg)"
      and inv: "strikes_in_range cfg (user_stats w)"
  shows "strikes_in_range cfg (user_stats (snd (processUpload e cfg key path w)))
       \<and> (fingerprintSSHKey e key = Some fp \<and> getUserData e fp w = (Inr ud, w1)
            \<and> rejected (fst (processUpload e cfg key path w))
            \<and> sint (StrikesBeforeTimeOut cfg) \<le> sint (Strikes ud + 1)
            \<and> (\<forall>n. \<not> faults e n (DbUpdate fp))
          \<longrightarrow> (\<forall>r. user_stats (snd (processUpload e cfg key path w)) fp = Some r
                    \<longrightarrow> strikes r = 0))"
proof (rule conjI)
  show "fingerprintSSHKey e key = Some fp \<and> getUserData e fp w = (Inr ud, w1)
            \<and> rejected (fst (processUpload e cfg key path w))
            \<and> sint (StrikesBeforeTimeOut cfg) \<le> sint (Strikes ud + 1)
            \<and> (\<forall>n. \<not> faults e n (DbUpdate fp))
          \<longrightarrow> (\<forall>r. user_stats (snd (processUpload e cfg key path w)) fp = Some r
                    \<longrightarrow> strikes r = 0)"
  proof (intro impI, elim conjE)
    assume fp: "fingerprintSSHKey e key = Some fp" and gd: "getUserData e fp w = (Inr ud, w1)"
      and rej: "rejected (fst (processUpload e cfg key path w))"
      and t: "sint (StrikesBeforeTimeOut cfg) \<le> sint (Strikes ud + 1)"
      and u: "\<forall>n. \<not> faults e n (DbUpdate fp)"
    obtain out w' where r: "processUpload e cfg key path w = (out, w')"
      by (cases "processUpload e cfg key path w")
    with rej have "rejected out" by simp
    from pu_rejected [OF fp gd r this] obtain a cs
      where w': "w' = strike e cfg fp a ud (w1\<lparr>calls := calls w1 @ cs\<rparr>)" by blast
    from strike_reset [OF t u, of a "w1\<lparr>calls := calls w1 @ cs\<rparr>"] w' r
    show "\<forall>r. user_stats (snd (processUpload e cfg key path w)) fp = Some r \<longrightarrow> strikes r = 0"
      by simp
  qed
next
  show "strikes_in_range cfg (user_stats (snd (processUpload e cfg key path w)))"
  proof (cases "fingerprintSSHKey e key")
    case None
    then show ?thesis using inv by (simp add: processUpload_no_key)
  next
    case (Some k)
    define P where "P = (\<lambda>r::stats_row. 0 \<le> sint (strikes r) \<and> sint (strikes r) < sint (StrikesBeforeTimeOut cfg))"
    have inv': "rows_ok P (user_stats w)"
      using inv by (simp add: strikes_in_range_def P_def)
    obtain res v1 where g: "getUserData e k w = (res, v1)" by (cases "getUserData e k w")
    obtain out w' where r: "processUpload e cfg key path w = (out, w')"
      by (cases "processUpload e cfg key path w")
    have "rows_ok P (user_stats w')"
    proof (cases res)
      case (Inl err)
      with g Some r inv' show ?thesis
        by (auto simp add: processUpload_no_ledger dest: getUserData_Inl)
    next
      case (Inr d)
      with g have gd: "getUserData e k w = (Inr d, v1)" by simp
      from getUserData_Inr [OF gd] obtain row where
        row: "user_stats v1 k = Some row" "Strikes d = strikes row"
        and tab: "user_stats v1 = user_stats w
                  \<or> (row = default_row \<and> user_stats v1 = (user_stats w)(k \<mapsto> default_row))"
        by blast
      have "P default_row" using thr by (simp add: P_def default_row_def)
      with tab inv' have ok1: "rows_ok P (user_stats v1)"
        by (auto intro: rows_ok_upd)
      from rows_ok_row [OF ok1 row(1)] row(2)
      have s: "0 \<le> sint (Strikes d)" "sint (Strikes d) < sint (StrikesBeforeTimeOut cfg)"
        by (simp_all add: P_def)
      have s1: "sint (Strikes d + 1) = sint (Strikes d) + 1"
        by (rule sint_succ [OF s(2)])
      have plus: "P (row_of (d\<lparr>Strikes := Strikes d + 1\<rparr>))"
        if "\<not> sint (StrikesBeforeTimeOut cfg) \<le> sint (Strikes d + 1)"
        using that s s1 by (simp add: P_def row_of_def)
      have reset: "P (row_of (d\<lparr>Strikes := 0, Timeouts := t\<rparr>))" for t
        using thr by (simp add: P_def row_of_def)
      have adm: "P (row_of (d\<lparr>DailyUpload := a, DailyAirtime := b, LastUpload := c\<rparr>))" for a b c
        using s by (simp add: P_def row_of_def)
      from processUpload_table [OF Some gd r] show ?thesis
        by (elim disjE conjE exE) (simp_all add: ok1 rows_ok_upd rows_ok_del plus reset adm)
    qed
    then show ?thesis using r by (simp add: strikes_in_range_def P_def)
  qed
qed

theorem strikes_stay_below_threshold_witness:
  "1 \<le> sint (StrikesBeforeTimeOut cfg_A)
   \<and> strikes_in_range cfg_A (user_stats world_B)
   \<and> fingerprintSSHKey std_env ''/keys/alice.pub'' = Some ''alice''
   \<and> fst (getUserData std_env ''alice'' world_B)
       = Inr \<lparr>Strikes = 2, Timeouts = 0, DailyUpload = 0, DailyAirtime = 0, LastUpload = 0\<rparr>
   \<and> fst (processUpload std_env cfg_A ''/keys/alice.pub'' ''/in/b.exe'' world_B)
       = RejectedUnsupportedType
   \<and> strikes_in_range cfg_A
        (user_stats (snd (processUpload std_env cfg_A ''/keys/alice.pub'' ''/in/b.exe'' world_B)))
   \<and> user_stats (snd (processUpload std_env cfg_A ''/keys/alice.pub'' ''/in/b.exe'' world_B)) ''alice''
       = Some \<lparr>strikes = 0, timeouts = 1, daily_upload = 0, daily_airtime = 0, last_upload = Some 0\<rparr>"
proof -
  let ?ud = "\<lparr>Strikes = 2, Timeouts = 0, DailyUpload = 0, DailyAirtime = 0, LastUpload = 0\<rparr>"
  have h1: "1 \<le> sint (StrikesBeforeTimeOut cfg_A)" by (simp add: cfg_A_def)
  have h2: "strikes_in_range cfg_A (user_stats world_B)"
    by (simp add: strikes_in_range_def rows_ok_def world_B_def world_A_def cfg_A_def)
  have k: "fingerprintSSHKey std_env ''/keys/alice.pub'' = Some ''alice''"
    by (simp add: std_env_def)
  have g: "fst (getUserData std_env ''alice'' world_B) = Inr ?ud"
    by (simp add: getUserData_def extcall_def world_B_def world_A_def std_env_def)
  then have g': "getUserData std_env ''alice'' world_B
                  = (Inr ?ud, snd (getUserData std_env ''alice'' world_B))"
    by (simp add: prod_eq_iff)
  have o: "fst (processUpload std_env cfg_A ''/keys/alice.pub'' ''/in/b.exe'' world_B)
             = RejectedUnsupportedType"
    by (simp add: model_defs scenario_defs)
  have t: "sint (StrikesBeforeTimeOut cfg_A) \<le> sint (Strikes ?ud + 1)"
    by (simp add: cfg_A_def)
  have u: "\<forall>n. \<not> faults std_env n (DbUpdate ''alice'')" by (simp add: std_env_def)
  have h3: "user_stats (snd (processUpload std_env cfg_A ''/keys/alice.pub'' ''/in/b.exe'' world_B)) ''alice''
       = Some \<lparr>strikes = 0, timeouts = 1, daily_upload = 0, daily_airtime = 0, last_upload = Some 0\<rparr>"
    by (simp add: model_defs scenario_defs)
  from strikes_stay_below_threshold [OF h1 h2, of std_env "''/keys/alice.pub''" "''/in/b.exe''"
      "''alice''" ?ud "snd (getUserData std_env ''alice'' world_B)"]
  show ?thesis using h1 h2 k g g' o t u h3 by simp
qed

text \<open>
  C2, as amended. If the ban threshold is at least 1 and no DELETE statement fails, then
  an evaluation keeps the time-outs of every row in \<open>[0, TimeOutsBeforeBan)\<close>; and
  when a rejection takes the strikes to their threshold and the time-outs to theirs,
  the row of the identity is gone at the end of the evaluation: the last three calls
  are the DELETE of \<^verbatim>\<open>banUser\<close>, its audit entry, and the UPDATE of
  \<^verbatim>\<open>processUpload\<close>, which finds no row and creates none.
\<close>

theorem timeouts_stay_below_threshold:
  assumes thr: "1 \<le> sint (TimeOutsBeforeBan cfg)"
      and inv: "timeouts_in_range cfg (user_stats w)"
      and del: "\<forall>n u. \<not> faults e n (DbDelete u)"
  shows "timeouts_in_range cfg (user_stats (snd (processUpload e cfg key path w)))
       \<and> (fingerprintSSHKey e key = Some fp \<and> getUserData e fp w = (Inr ud, w1)
            \<and> rejected (fst (processUpload e cfg key path w))
            \<and> sint (StrikesBeforeTimeOut cfg) \<le> sint (Strikes ud + 1)
            \<and> sint (TimeOutsBeforeBan cfg) \<le> sint (Timeouts ud + 1)
          \<longrightarrow> user_stats (snd (processUpload e cfg key path w)) fp = None
              \<and> take 3 (rev (calls (snd (processUpload e cfg key path w))))
                  = [DbUpdate fp, IoWriteFile, DbDelete fp])"
proof (rule conjI)
  obtain out w' where r: "processUpload e cfg key path w = (out, w')"
    by (cases "processUpload e cfg key path w")
  show "fingerprintSSHKey e key = Some fp \<and> getUserData e fp w = (Inr ud, w1)
            \<and> rejected (fst (processUpload e cfg key path w))
            \<and> sint (StrikesBeforeTimeOut cfg) \<le> sint (Strikes ud + 1)
            \<and> sint (TimeOutsBeforeBan cfg) \<le> sint (Timeouts ud + 1)
          \<longrightarrow> user_stats (snd (processUpload e cfg key path w)) fp = None
              \<and> take 3 (rev (calls (snd (processUpload e cfg key path w))))
                  = [DbUpdate fp, IoWriteFile, DbDelete fp]"
  proof (intro impI, elim conjE)
    assume fp: "fingerprintSSHKey e key = Some fp" and gd: "getUserData e fp w = (Inr ud, w1)"
      and rej: "rejected (fst (processUpload e cfg key path w))"
      and t: "sint (StrikesBeforeTimeOut cfg) \<le> sint (Strikes ud + 1)"
      and b: "sint (TimeOutsBeforeBan cfg) \<le> sint (Timeouts ud + 1)"
    from rej r have "rejected out" by simp
    from pu_rejected [OF fp gd r this] obtain a cs
      where w': "w' = strike e cfg fp a ud (w1\<lparr>calls := calls w1 @ cs\<rparr>)" by blast
    from del have "\<forall>n. \<not> faults e n (DbDelete fp)" by simp
    from strike_ban [OF t b this, of a "w1\<lparr>calls := calls w1 @ cs\<rparr>"] w' r
    show "user_stats (snd (processUpload e cfg key path w)) fp = None
              \<and> take 3 (rev (calls (snd (processUpload e cfg key path w))))
                  = [DbUpdate fp, IoWriteFile, DbDelete fp]"
      by simp
  qed
next
  show "timeouts_in_range cfg (user_stats (snd (processUpload e cfg key path w)))"
  proof (cases "fingerprintSSHKey e key")
    case None
    then show ?thesis using inv by (simp add: processUpload_no_key)
  next
    case (Some k)
    define P where "P = (\<lambda>r::stats_row. 0 \<le> sint (timeouts r) \<and> sint (timeouts r) < sint (TimeOutsBeforeBan cfg))"
    have inv': "rows_ok P (user_stats w)"
      using inv by (simp add: timeouts_in_range_def P_def)
    obtain res v1 where g: "getUserData e k w = (res, v1)" by (cases "getUserData e k w")
    obtain out w' where r: "processUpload e cfg key path w = (out, w')"
      by (cases "processUpload e cfg key path w")
    have "rows_ok P (user_stats w')"
    proof (cases res)
      case (Inl err)
      with g Some r inv' show ?thesis
        by (auto simp add: processUpload_no_ledger dest: getUserData_Inl)
    next
      case (Inr d)
      with g have gd: "getUserData e k w = (Inr d, v1)" by simp
      from getUserData_Inr [OF gd] obtain row where
        row: "user_stats v1 k = Some row" "Timeouts d = timeouts row"
        and tab: "user_stats v1 = user_stats w
                  \<or> (row = default_row \<and> user_stats v1 = (user_stats w)(k \<mapsto> default_row))"
        by blast
      have "P default_row" using thr by (simp add: P_def default_row_def)
      with tab inv' have ok1: "rows_ok P (user_stats v1)"
        by (auto intro: rows_ok_upd)
      from rows_ok_row [OF ok1 row(1)] row(2)
      have s: "0 \<le> sint (Timeouts d)" "sint (Timeouts d) < sint (TimeOutsBeforeBan cfg)"
        by (simp_all add: P_def)
      have s1: "sint (Timeouts d + 1) = sint (Timeouts d) + 1"
        by (rule sint_succ [OF s(2)])
      have plus: "P (row_of (d\<lparr>Strikes := n\<rparr>))" for n
        using s by (simp add: P_def row_of_def)
      have reset: "P (row_of (d\<lparr>Strikes := 0, Timeouts := Timeouts d + 1\<rparr>))"
        if "\<not> sint (TimeOutsBeforeBan cfg) \<le> sint (Timeouts d + 1)"
        using that s s1 by (simp add: P_def row_of_def)
      have adm: "P (row_of (d\<lparr>DailyUpload := a, DailyAirtime := b, LastUpload := c\<rparr>))" for a b c
        using s by (simp add: P_def row_of_def)
      from processUpload_table [OF Some gd r] show ?thesis
        by (elim disjE conjE exE) (simp_all add: ok1 rows_ok_upd rows_ok_del plus reset adm del)
    qed
    then show ?thesis using r by (simp add: timeouts_in_range_def P_def)
  qed
qed

theorem timeouts_stay_below_threshold_witness:
  "1 \<le> sint (TimeOutsBeforeBan cfg_A)
   \<and> timeouts_in_range cfg_A (user_stats world_C)
   \<and> fingerprintSSHKey std_env ''/keys/alice.pub'' = Some ''alice''
   \<and> fst (getUserData std_env ''alice'' world_C)
       = Inr \<lparr>Strikes = 2, Timeouts = 1, DailyUpload = 0, DailyAirtime = 0, LastUpload = 0\<rparr>
   \<and> fst (processUpload std_env cfg_A ''/keys/alice.pub'' ''/in/b.exe'' world_C)
       = RejectedUnsupportedType
   \<and> timeouts_in_range cfg_A
        (user_stats (snd (processUpload std_env cfg_A ''/keys/alice.pub'' ''/in/b.exe'' world_C)))
   \<and> user_stats (snd (processUpload std_env cfg_A ''/keys/alice.pub'' ''/in/b.exe'' world_C)) ''alice''
       = None
   \<and> take 3 (rev (calls (snd (processUpload std_env cfg_A ''/keys/alice.pub'' ''/in/b.exe'' world_C))))
       = [DbUpdate ''alice'', IoWriteFile, DbDelete ''alice'']"
proof -
  let ?ud = "\<lparr>Strikes = 2, Timeouts = 1, DailyUpload = 0, DailyAirtime = 0, LastUpload = 0\<rparr>"
  have h1: "1 \<le> sint (TimeOutsBeforeBan cfg_A)" by (simp add: cfg_A_def)
  have h2: "timeouts_in_range cfg_A (user_stats world_C)"
    by (simp add: timeouts_in_range_def rows_ok_def world_C_def world_A_def cfg_A_def)
  have h3: "\<forall>n u. \<not> faults std_env n (DbDelete u)" by (simp add: std_env_def)
  have k: "fingerprintSSHKey std_env ''/keys/alice.pub'' = Some ''alice''"
    by (simp add: std_env_def)
  have g: "fst (getUserData std_env ''alice'' world_C) = Inr ?ud"
    by (simp add: getUserData_def extcall_def world_C_def world_A_def std_env_def)
  then have g': "getUserData std_env ''alice'' world_C
                  = (Inr ?ud, snd (getUserData std_env ''alice'' world_C))"
    by (simp add: prod_eq_iff)
  have o: "fst (processUpload std_env cfg_A ''/keys/alice.pub'' ''/in/b.exe'' world_C)
             = RejectedUnsupportedType"
    by (simp add: model_defs scenario_defs)
  have t: "sint (StrikesBeforeTimeOut cfg_A) \<le> sint (Strikes ?ud + 1)"
    and b: "sint (TimeOutsBeforeBan cfg_A) \<le> sint (Timeouts ?ud + 1)"
    by (simp_all add: cfg_A_def)
  from timeouts_stay_below_threshold [OF h1 h2 h3, of "''/keys/alice.pub''" "''/in/b.exe''"
      "''alice''" ?ud "snd (getUserData std_env ''alice'' world_C)"]
  show ?thesis using h1 h2 k g g' o t b by simp
qed

theorem timeouts_range_counterexample:
  "timeouts_in_range cfg_ban0 (user_stats world_A)
   \<and> fst (processUpload std_env cfg_ban0 ''/keys/alice.pub'' ''/in/a.mp3'' world_A) = Admitted
   \<and> user_stats (snd (processUpload std_env cfg_ban0 ''/keys/alice.pub'' ''/in/a.mp3'' world_A)) ''alice''
       = Some \<lparr>strikes = 0, timeouts = 0, daily_upload = 40, daily_airtime = 0, last_upload = Some 7\<rparr>
   \<and> \<not> timeouts_in_range cfg_ban0
          (user_stats (snd (processUpload std_env cfg_ban0 ''/keys/alice.pub'' ''/in/a.mp3'' world_A)))
   \<and> 1 \<le> sint (TimeOutsBeforeBan cfg_one)
   \<and> timeouts_in_range cfg_one (user_stats world_A)
   \<and> user_stats (snd (processUpload env_delete_fails cfg_one ''/keys/alice.pub'' ''/in/b.exe'' world_A)) ''alice''
       = Some \<lparr>strikes = 0, timeouts = 1, daily_upload = 0, daily_airtime = 0, last_upload = Some 0\<rparr>
   \<and> \<not> timeouts_in_range cfg_one
          (user_stats (snd (processUpload env_delete_fails cfg_one ''/keys/alice.pub'' ''/in/b.exe'' world_A)))"
proof -
  have e: "timeouts_in_range c (user_stats world_A)" for c
    by (simp add: timeouts_in_range_def rows_ok_def world_A_def)
  have a: "fst (processUpload std_env cfg_ban0 ''/keys/alice.pub'' ''/in/a.mp3'' world_A) = Admitted"
    by (simp add: model_defs scenario_defs)
  have r0: "user_stats (snd (processUpload std_env cfg_ban0 ''/keys/alice.pub'' ''/in/a.mp3'' world_A)) ''alice''
       = Some \<lparr>strikes = 0, timeouts = 0, daily_upload = 40, daily_airtime = 0, last_upload = Some 7\<rparr>"
    by (simp add: model_defs scenario_defs)
  have n0: "\<not> timeouts_in_range cfg_ban0
          (user_stats (snd (processUpload std_env cfg_ban0 ''/keys/alice.pub'' ''/in/a.mp3'' world_A)))"
  proof
    assume "timeouts_in_range cfg_ban0
          (user_stats (snd (processUpload std_env cfg_ban0 ''/keys/alice.pub'' ''/in/a.mp3'' world_A)))"
    from rows_ok_row [OF this [unfolded timeouts_in_range_def] r0]
    show False by (simp add: cfg_ban0_def cfg_A_def)
  qed
  have t1: "1 \<le> sint (TimeOutsBeforeBan cfg_one)" by (simp add: cfg_one_def cfg_A_def)
  have r1: "user_stats (snd (processUpload env_delete_fails cfg_one ''/keys/alice.pub'' ''/in/b.exe'' world_A)) ''alice''
       = Some \<lparr>strikes = 0, timeouts = 1, daily_upload = 0, daily_airtime = 0, last_upload = Some 0\<rparr>"
    by (simp add: model_defs scenario_defs)
  have n1: "\<not> timeouts_in_range cfg_one
          (user_stats (snd (processUpload env_delete_fails cfg_one ''/keys/alice.pub'' ''/in/b.exe'' world_A)))"
  proof
    assume "timeouts_in_range cfg_one
          (user_stats (snd (processUpload env_delete_fails cfg_one ''/keys/alice.pub'' ''/in/b.exe'' world_A)))"
    from rows_ok_row [OF this [unfolded timeouts_in_range_def] r1]
    show False by (simp add: cfg_one_def cfg_A_def)
  qed
  from e a r0 n0 t1 r1 n1 show ?thesis by blast
qed

text \<open>
  C3. Once the identity's row is loaded, the checks run in the order type, size,
  airtime, and the first that fails decides the outcome:
  \<^item> a file of an unsupported type is rejected for its type; the evaluation makes no
    call of \<^verbatim>\<open>os.Stat\<close> and none of ffprobe, and no row is charged: the row of the
    identity, where it remains, has the upload and airtime totals that were loaded,
    and the rows of the other identities are untouched;
  \<^item> a file of an accepted type that exceeds the size quota is rejected for its size
    after the one call of \<^verbatim>\<open>os.Stat\<close>: its duration is not probed;
  \<^item> a file that passes both and exceeds the airtime quota is rejected for its airtime,
    after \<^verbatim>\<open>os.Stat\<close> and ffprobe, in this order.
\<close>

theorem checks_run_in_fixed_order:
  assumes fp: "fingerprintSSHKey e key = Some fp"
      and gd: "getUserData e fp w = (Inr ud, w1)"
  shows "(\<not> checkFileType e cfg path \<longrightarrow>
            fst (processUpload e cfg key path w) = RejectedUnsupportedType
          \<and> filter measures (calls (snd (processUpload e cfg key path w)))
              = filter measures (calls w)
          \<and> (\<forall>r. user_stats (snd (processUpload e cfg key path w)) fp = Some r
                  \<longrightarrow> daily_upload r = DailyUpload ud \<and> daily_airtime r = DailyAirtime ud)
          \<and> (\<forall>u. u \<noteq> fp
                  \<longrightarrow> user_stats (snd (processUpload e cfg key path w)) u = user_stats w u))
       \<and> (checkFileType e cfg path
            \<and> fst (calculateFileSize e path w1) = Inr fileSize
            \<and> sint (MaxUserUploadSize cfg) < sint (DailyUpload ud + fileSize) \<longrightarrow>
            fst (processUpload e cfg key path w) = RejectedSizeQuota
          \<and> filter measures (calls (snd (processUpload e cfg key path w)))
              = filter measures (calls w) @ [OsStat path])
       \<and> (checkFileType e cfg path
            \<and> fst (calculateFileSize e path w1) = Inr fileSize
            \<and> \<not> sint (MaxUserUploadSize cfg) < sint (DailyUpload ud + fileSize)
            \<and> fst (calculateAudioDuration e path (snd (calculateFileSize e path w1))) = Inr duration
            \<and> sint (MaxUserAirtime cfg) < sint (DailyAirtime ud + duration) \<longrightarrow>
            fst (processUpload e cfg key path w) = RejectedAirtimeQuota
          \<and> filter measures (calls (snd (processUpload e cfg key path w)))
              = filter measures (calls w) @ [OsStat path, ExecFfprobe path])"
proof -
  from getUserData_frame(4) [of e fp w] gd
  have c1: "filter measures (calls w1) = filter measures (calls w)" by simp
  from getUserData_Inr [OF gd] obtain row where
    row: "user_stats w1 fp = Some row" "DailyUpload ud = daily_upload row"
      "DailyAirtime ud = daily_airtime row"
    by blast
  have other: "user_stats w1 u = user_stats w u" if "u \<noteq> fp" for u
    using getUserData_others [OF gd that] .
  have A: ?thesis if "\<not> checkFileType e cfg path"
    using pu_type [OF fp gd that] c1 that other
      strike_quota [of w1 fp row ud e cfg "''Attempted to upload unsupported file type''"] row
    by simp
  have B: ?thesis
    if "checkFileType e cfg path" and "fst (calculateFileSize e path w1) = Inr fileSize"
      and "sint (MaxUserUploadSize cfg) < sint (DailyUpload ud + fileSize)"
    using pu_size [OF fp gd that] c1 that by simp
  have C: ?thesis
    if "checkFileType e cfg path" and "fst (calculateFileSize e path w1) = Inr fileSize"
      and "\<not> sint (MaxUserUploadSize cfg) < sint (DailyUpload ud + fileSize)"
      and "fst (calculateAudioDuration e path (w1\<lparr>calls := calls w1 @ [OsStat path]\<rparr>)) = Inr duration"
      and "sint (MaxUserAirtime cfg) < sint (DailyAirtime ud + duration)"
    using pu_air [OF fp gd that] c1 that by simp
  show ?thesis
    using A B C by (cases "checkFileType e cfg path") auto
qed

theorem checks_run_in_fixed_order_witness:
  "fingerprintSSHKey std_env ''/keys/alice.pub'' = Some ''alice''
   \<and> fst (getUserData std_env ''alice'' world_A) = Inr zeroUserData
   \<and> \<not> checkFileType std_env cfg_A ''/in/b.exe''
   \<and> fst (processUpload std_env cfg_A ''/keys/alice.pub'' ''/in/b.exe'' world_A)
       = RejectedUnsupportedType
   \<and> filter measures (calls (snd (processUpload std_env cfg_A ''/keys/alice.pub'' ''/in/b.exe'' world_A)))
       = []
   \<and> checkFileType std_env cfg_A ''/in/c.mp3''
   \<and> fst (calculateFileSize std_env ''/in/c.mp3'' (snd (getUserData std_env ''alice'' world_A)))
       = Inr 200
   \<and> sint (MaxUserUploadSize cfg_A) < sint (DailyUpload zeroUserData + 200)
   \<and> fst (processUpload std_env cfg_A ''/keys/alice.pub'' ''/in/c.mp3'' world_A)
       = RejectedSizeQuota
   \<and> filter measures (calls (snd (processUpload std_env cfg_A ''/keys/alice.pub'' ''/in/c.mp3'' world_A)))
       = [OsStat ''/in/c.mp3'']
   \<and> fst (getUserData std_env ''alice'' world_D)
       = Inr \<lparr>Strikes = 0, Timeouts = 0, DailyUpload = 0, DailyAirtime = 1001, LastUpload = 0\<rparr>
   \<and> checkFileType std_env cfg_A ''/in/a.mp3''
   \<and> fst (calculateFileSize std_env ''/in/a.mp3'' (snd (getUserData std_env ''alice'' world_D)))
       = Inr 40
   \<and> fst (calculateAudioDuration std_env ''/in/a.mp3''
            (snd (calculateFileSize std_env ''/in/a.mp3'' (snd (getUserData std_env ''alice'' world_D)))))
       = Inr 0
   \<and> fst (processUpload std_env cfg_A ''/keys/alice.pub'' ''/in/a.mp3'' world_D)
       = RejectedAirtimeQuota
   \<and> filter measures (calls (snd (processUpload std_env cfg_A ''/keys/alice.pub'' ''/in/a.mp3'' world_D)))
       = [OsStat ''/in/a.mp3'', ExecFfprobe ''/in/a.mp3'']"
proof -
  let ?udD = "\<lparr>Strikes = 0, Timeouts = 0, DailyUpload = 0, DailyAirtime = 1001, LastUpload = 0\<rparr>"
  have k: "fingerprintSSHKey std_env ''/keys/alice.pub'' = Some ''alice''"
    by (simp add: std_env_def)
  have gA: "fst (getUserData std_env ''alice'' world_A) = Inr zeroUserData"
    by (simp add: getUserData_def extcall_def world_A_def std_env_def)
  then have gA': "getUserData std_env ''alice'' world_A
                  = (Inr zeroUserData, snd (getUserData std_env ''alice'' world_A))"
    by (simp add: prod_eq_iff)
  have gD: "fst (getUserData std_env ''alice'' world_D) = Inr ?udD"
    by (simp add: getUserData_def extcall_def world_D_def world_A_def std_env_def)
  then have gD': "getUserData std_env ''alice'' world_D
                  = (Inr ?udD, snd (getUserData std_env ''alice'' world_D))"
    by (simp add: prod_eq_iff)
  have cA: "calls world_A = []" and cD: "calls world_D = []"
    by (simp_all add: world_A_def world_D_def)
  have t1: "\<not> checkFileType std_env cfg_A ''/in/b.exe''"
    and t2: "checkFileType std_env cfg_A ''/in/c.mp3''"
    and t3: "checkFileType std_env cfg_A ''/in/a.mp3''"
    by (simp_all add: checkFileType_def Ext_def std_env_def cfg_A_def)
  have s2: "fst (calculateFileSize std_env ''/in/c.mp3'' (snd (getUserData std_env ''alice'' world_A)))
              = Inr 200"
    by (simp add: model_defs scenario_defs)
  have o2: "sint (MaxUserUploadSize cfg_A) < sint (DailyUpload zeroUserData + 200)"
    by (simp add: cfg_A_def zeroUserData_def)
  have s3: "fst (calculateFileSize std_env ''/in/a.mp3'' (snd (getUserData std_env ''alice'' world_D)))
              = Inr 40"
    by (simp add: model_defs scenario_defs)
  have n3: "\<not> sint (MaxUserUploadSize cfg_A) < sint (DailyUpload ?udD + 40)"
    by (simp add: cfg_A_def)
  have d3: "fst (calculateAudioDuration std_env ''/in/a.mp3''
            (snd (calculateFileSize std_env ''/in/a.mp3'' (snd (getUserData std_env ''alice'' world_D)))))
              = Inr 0"
    by (simp add: model_defs scenario_defs)
  have o3: "sint (MaxUserAirtime cfg_A) < sint (DailyAirtime ?udD + 0)"
    by (simp add: cfg_A_def)
  from checks_run_in_fixed_order [OF k gA', of cfg_A "''/in/b.exe''"] t1 cA
  have r1: "fst (processUpload std_env cfg_A ''/keys/alice.pub'' ''/in/b.exe'' world_A)
              = RejectedUnsupportedType
      \<and> filter measures (calls (snd (processUpload std_env cfg_A ''/keys/alice.pub'' ''/in/b.exe'' world_A)))
          = []"
    by simp
  from checks_run_in_fixed_order [OF k gA', of cfg_A "''/in/c.mp3''" 200] t2 s2 o2 cA
  have r2: "fst (processUpload std_env cfg_A ''/keys/alice.pub'' ''/in/c.mp3'' world_A)
              = RejectedSizeQuota
      \<and> filter measures (calls (snd (processUpload std_env cfg_A ''/keys/alice.pub'' ''/in/c.mp3'' world_A)))
          = [OsStat ''/in/c.mp3'']"
    by simp
  from checks_run_in_fixed_order [OF k gD', of cfg_A "''/in/a.mp3''" 40 0] t3 s3 n3 d3 o3 cD
  have r3: "fst (processUpload std_env cfg_A ''/keys/alice.pub'' ''/in/a.mp3'' world_D)
              = RejectedAirtimeQuota
      \<and> filter measures (calls (snd (processUpload std_env cfg_A ''/keys/alice.pub'' ''/in/a.mp3'' world_D)))
          = [OsStat ''/in/a.mp3'', ExecFfprobe ''/in/a.mp3'']"
    by simp
  from k gA t1 r1 t2 s2 o2 r2 gD t3 s3 d3 r3 show ?thesis by blast
qed

text \<open>
  C4, as amended. A rejection, whatever its reason (type, size or airtime), leaves the
  file system as it was: the candidate is neither deleted nor moved. When the
  incremented strikes stay below the threshold and the UPDATE of the ledger does not
  fail, the row of the identity afterwards is the row that was loaded with its strikes
  incremented by exactly 1.
\<close>

theorem rejection_leaves_file_in_place:
  assumes fp: "fingerprintSSHKey e key = Some fp"
      and gd: "getUserData e fp w = (Inr ud, w1)"
      and rej: "rejected (fst (processUpload e cfg key path w))"
  shows "files (snd (processUpload e cfg key path w)) = files w
       \<and> (\<not> sint (StrikesBeforeTimeOut cfg) \<le> sint (Strikes ud + 1)
            \<and> (\<forall>n. \<not> faults e n (DbUpdate fp))
          \<longrightarrow> user_stats (snd (processUpload e cfg key path w)) fp
                = Some (row_of (ud\<lparr>Strikes := Strikes ud + 1\<rparr>)))"
proof -
  obtain out w' where r: "processUpload e cfg key path w = (out, w')"
    by (cases "processUpload e cfg key path w")
  with rej have "rejected out" by simp
  from pu_rejected [OF fp gd r this] obtain a cs
    where w': "w' = strike e cfg fp a ud (w1\<lparr>calls := calls w1 @ cs\<rparr>)" by blast
  from getUserData_frame(1) [of e fp w] gd have f1: "files w1 = files w" by simp
  from getUserData_Inr [OF gd] obtain row where row: "user_stats w1 fp = Some row" by blast
  have "files w' = files w" using w' f1 by simp
  moreover have "user_stats w' fp = Some (row_of (ud\<lparr>Strikes := Strikes ud + 1\<rparr>))"
    if "\<not> sint (StrikesBeforeTimeOut cfg) \<le> sint (Strikes ud + 1)"
      and "\<forall>n. \<not> faults e n (DbUpdate fp)"
    using strike_plus [OF that, of "w1\<lparr>calls := calls w1 @ cs\<rparr>" row a] row w' by simp
  ultimately show ?thesis using r by simp
qed

theorem rejection_leaves_file_in_place_witness:
  "fingerprintSSHKey std_env ''/keys/alice.pub'' = Some ''alice''
   \<and> fst (getUserData std_env ''alice'' world_A) = Inr zeroUserData
   \<and> fst (processUpload std_env cfg_A ''/keys/alice.pub'' ''/in/c.mp3'' world_A) = RejectedSizeQuota
   \<and> \<not> sint (StrikesBeforeTimeOut cfg_A) \<le> sint (Strikes zeroUserData + 1)
   \<and> files (snd (processUpload std_env cfg_A ''/keys/alice.pub'' ''/in/c.mp3'' world_A))
       = files world_A
   \<and> user_stats (snd (processUpload std_env cfg_A ''/keys/alice.pub'' ''/in/c.mp3'' world_A)) ''alice''
       = Some \<lparr>strikes = 1, timeouts = 0, daily_upload = 0, daily_airtime = 0, last_upload = Some 0\<rparr>"
proof -
  have k: "fingerprintSSHKey std_env ''/keys/alice.pub'' = Some ''alice''"
    by (simp add: std_env_def)
  have g: "fst (getUserData std_env ''alice'' world_A) = Inr zeroUserData"
    by (simp add: getUserData_def extcall_def world_A_def std_env_def)
  then have g': "getUserData std_env ''alice'' world_A
                  = (Inr zeroUserData, snd (getUserData std_env ''alice'' world_A))"
    by (simp add: prod_eq_iff)
  have o: "fst (processUpload std_env cfg_A ''/keys/alice.pub'' ''/in/c.mp3'' world_A) = RejectedSizeQuota"
    by (simp add: model_defs scenario_defs)
  then have rj: "rejected (fst (processUpload std_env cfg_A ''/keys/alice.pub'' ''/in/c.mp3'' world_A))"
    by simp
  have b: "\<not> sint (StrikesBeforeTimeOut cfg_A) \<le> sint (Strikes zeroUserData + 1)"
    by (simp add: cfg_A_def zeroUserData_def)
  have f: "\<forall>n. \<not> faults std_env n (DbUpdate ''alice'')" by (simp add: std_env_def)
  from rejection_leaves_file_in_place [OF k g' rj] b f
  show ?thesis using k g o by (simp add: row_of_def zeroUserData_def)
qed

theorem rejection_disposition_counterexample:
  "fst (processUpload std_env cfg_A ''/keys/alice.pub'' ''/in/b.exe'' world_A)
     = RejectedUnsupportedType
   \<and> files world_A ''/in/b.exe'' = Some \<lparr>fsize = 10, probe = None\<rparr>
   \<and> files (snd (processUpload std_env cfg_A ''/keys/alice.pub'' ''/in/b.exe'' world_A)) ''/in/b.exe''
       = Some \<lparr>fsize = 10, probe = None\<rparr>
   \<and> user_stats world_B ''alice''
       = Some \<lparr>strikes = 2, timeouts = 0, daily_upload = 0, daily_airtime = 0, last_upload = None\<rparr>
   \<and> fst (processUpload std_env cfg_A ''/keys/alice.pub'' ''/in/c.mp3'' world_B) = RejectedSizeQuota
   \<and> user_stats (snd (processUpload std_env cfg_A ''/keys/alice.pub'' ''/in/c.mp3'' world_B)) ''alice''
       = Some \<lparr>strikes = 0, timeouts = 1, daily_upload = 0, daily_airtime = 0, last_upload = Some 0\<rparr>"
  by (simp add: model_defs scenario_defs)

text \<open>
  C5, as amended. When every check passes and \<^verbatim>\<open>os.Rename\<close> fails, the
  evaluation returns before \<^verbatim>\<open>updateUserData\<close>, so the new upload total, airtime
  and time of last upload are not written: an identity that had a row keeps exactly
  that row, and an identity seen for the first time is left with the row of zeros
  that \<^verbatim>\<open>getUserData\<close> inserted before the checks (that INSERT is not undone).
  The rows of the other identities are untouched, and the file is where it was.
\<close>

theorem failed_move_commits_nothing:
  assumes fp: "fingerprintSSHKey e key = Some fp"
      and mv: "fst (processUpload e cfg key path w) = Dropped MoveFailed"
  shows "user_stats (snd (processUpload e cfg key path w)) fp
           = Some (case user_stats w fp of Some row \<Rightarrow> row | None \<Rightarrow> default_row)
       \<and> (\<forall>u. u \<noteq> fp \<longrightarrow> user_stats (snd (processUpload e cfg key path w)) u = user_stats w u)
       \<and> files (snd (processUpload e cfg key path w)) = files w"
proof -
  obtain out w' where r: "processUpload e cfg key path w = (out, w')"
    by (cases "processUpload e cfg key path w")
  with mv have out: "out = Dropped MoveFailed" by simp
  obtain res w1 where g: "getUserData e fp w = (res, w1)" by (cases "getUserData e fp w")
  have "getUserData e fp w \<noteq> (Inl err, w1)" for err
  proof
    assume "getUserData e fp w = (Inl err, w1)"
    from processUpload_no_ledger [OF fp this] r out have "err = MoveFailed" by simp
    with \<open>getUserData e fp w = (Inl err, w1)\<close> show False
      by (auto simp add: getUserData_def extcall_def Let_def split: option.splits if_splits)
  qed
  with g obtain ud where gd: "getUserData e fp w = (Inr ud, w1)" by (cases res) auto
  from processUpload_table [OF fp gd r] out
  have same: "user_stats w' = user_stats w1" by auto
  from getUserData_Inr [OF gd]
  have row: "user_stats w1 fp = Some (case user_stats w fp of Some row \<Rightarrow> row | None \<Rightarrow> default_row)"
    by (auto split: option.splits)
  have other: "user_stats w1 u = user_stats w u" if "u \<noteq> fp" for u
    using getUserData_others [OF gd that] .
  have "files w' = files w"
    using processUpload_files [OF fp gd r] out by simp
  with same row other r show ?thesis by simp
qed

theorem failed_move_commits_nothing_witness:
  "fingerprintSSHKey env_rename_fails ''/keys/alice.pub'' = Some ''alice''
   \<and> fst (processUpload env_rename_fails cfg_A ''/keys/alice.pub'' ''/in/a.mp3'' world_B)
       = Dropped MoveFailed
   \<and> user_stats (snd (processUpload env_rename_fails cfg_A ''/keys/alice.pub'' ''/in/a.mp3'' world_B)) ''alice''
       = user_stats world_B ''alice''
   \<and> files (snd (processUpload env_rename_fails cfg_A ''/keys/alice.pub'' ''/in/a.mp3'' world_B))
       = files world_B"
proof -
  have k: "fingerprintSSHKey env_rename_fails ''/keys/alice.pub'' = Some ''alice''"
    by (simp add: env_rename_fails_def std_env_def)
  have m: "fst (processUpload env_rename_fails cfg_A ''/keys/alice.pub'' ''/in/a.mp3'' world_B)
             = Dropped MoveFailed"
    by (simp add: model_defs scenario_defs)
  have b: "user_stats world_B ''alice''
             = Some \<lparr>strikes = 2, timeouts = 0, daily_upload = 0, daily_airtime = 0, last_upload = None\<rparr>"
    by (simp add: world_B_def)
  from failed_move_commits_nothing [OF k m] show ?thesis using k m b by simp
qed

theorem failed_move_counterexample:
  "user_stats world_A ''alice'' = None
   \<and> fst (processUpload env_rename_fails cfg_A ''/keys/alice.pub'' ''/in/a.mp3'' world_A)
       = Dropped MoveFailed
   \<and> user_stats (snd (processUpload env_rename_fails cfg_A ''/keys/alice.pub'' ''/in/a.mp3'' world_A)) ''alice''
       = Some \<lparr>strikes = 0, timeouts = 0, daily_upload = 0, daily_airtime = 0, last_upload = None\<rparr>
   \<and> calls (snd (processUpload env_rename_fails cfg_A ''/keys/alice.pub'' ''/in/a.mp3'' world_A))
       = [DbQueryRow ''alice'', DbInsert ''alice'', OsStat ''/in/a.mp3'', ExecFfprobe ''/in/a.mp3'',
          OsRename ''/in/a.mp3'' ''/store/a.mp3'']"
  by (simp add: model_defs scenario_defs)

text \<open>
  C6. What the code does where the claim asks for an append: each call of
  \<^verbatim>\<open>logAction\<close> that succeeds leaves its own entry as the only content of
  access.log. After two calls the first entry is gone; and after the evaluation that
  takes alice from two strikes to a time-out, which logs the rejection and then the
  time-out, the log holds the time-out only.
\<close>

theorem audit_log_is_overwritten:
  "access_log (logAction std_env ''alice'' ''User timed out''
                 (logAction std_env ''alice'' ''Exceeded daily upload size limit'' world_A))
     = [(7, ''alice'', ''User timed out'')]
   \<and> access_log (snd (processUpload std_env cfg_A ''/keys/alice.pub'' ''/in/b.exe'' world_B))
       = [(7, ''alice'', ''User timed out'')]"
  by (simp add: model_defs scenario_defs)

text \<open>
  C7. What the code does where the claim asks for a tail: \<^verbatim>\<open>monitorSSHLogs\<close>
  returns when the scanner reaches the end of the file. A transfer logged before that
  moment is evaluated (here it is admitted and charged to alice); the same line
  appended after it is never read, and the world stays as it was.
\<close>

theorem log_monitor_returns_at_eof:
  "map_sum id (\<lambda>v. user_stats v ''alice'')
      (monitorSSHLogs env_log cfg_A (Some \<lparr>at_eof = [scp_line], later = []\<rparr>) world_A)
     = Inr (Some \<lparr>strikes = 0, timeouts = 0, daily_upload = 40, daily_airtime = 0,
                   last_upload = Some 7\<rparr>)
   \<and> monitorSSHLogs env_log cfg_A (Some \<lparr>at_eof = [], later = [scp_line]\<rparr>) world_A
       = Inr world_A"
  by (simp add: monitorSSHLogs_def parseSSHLogLine_def scp_line_def env_log_def
      model_defs scenario_defs)

text \<open>
  C8. What the code does on scenario A: the 40 MB file for which ffprobe prints
  \<^verbatim>\<open>120.000000\<close> is admitted and 40 MB are charged, but
  \<^verbatim>\<open>calculateAudioDuration\<close> returns 0, not 120, and the airtime of the row stays 0.
\<close>

theorem scenario_A_charges_no_airtime:
  "user_stats world_A ''alice'' = None
   \<and> files world_A ''/in/a.mp3'' = Some \<lparr>fsize = 40 * 1024 * 1024, probe = Some ''120.000000''\<rparr>
   \<and> fst (calculateAudioDuration std_env ''/in/a.mp3'' world_A) = Inr 0
   \<and> fst (processUpload std_env cfg_A ''/keys/alice.pub'' ''/in/a.mp3'' world_A) = Admitted
   \<and> user_stats (snd (processUpload std_env cfg_A ''/keys/alice.pub'' ''/in/a.mp3'' world_A)) ''alice''
       = Some \<lparr>strikes = 0, timeouts = 0, daily_upload = 40, daily_airtime = 0, last_upload = Some 7\<rparr>"
  by (simp add: model_defs scenario_defs)

text \<open>
  C9. When the key material cannot be turned into a fingerprint, the evaluation ends
  at its first \<^verbatim>\<open>return\<close>: the world is the one it started from, so no row of the
  ledger was created or changed, no strike was recorded, and no call left the process
  (the ledger was not read either).
\<close>

theorem unreadable_credential_drops_upload:
  assumes "fingerprintSSHKey e sshKeyPath = None"
  shows "processUpload e cfg sshKeyPath filePath w = (Dropped CredentialUnreadable, w)"
  using assms by (simp add: processUpload_def)

theorem unreadable_credential_drops_upload_witness:
  "fingerprintSSHKey std_env ''/keys/mallory.pub'' = None
   \<and> processUpload std_env cfg_A ''/keys/mallory.pub'' ''/in/a.mp3'' world_A
       = (Dropped CredentialUnreadable, world_A)"
proof -
  have h: "fingerprintSSHKey std_env ''/keys/mallory.pub'' = None" by (simp add: std_env_def)
  from unreadable_credential_drops_upload [OF h] show ?thesis using h by simp
qed

text \<open>
  C10, as amended. The size that \<^verbatim>\<open>calculateFileSize\<close> returns is the size in bytes
  divided by \<open>1024 * 1024\<close>, rounded down. For a file of less than 1 MiB it is 0: such
  a file is not rejected for its size unless the upload total of the identity already
  exceeds the quota, and when it is admitted the upload total of the row stays what it
  was.
\<close>

theorem small_file_costs_no_quota:
  assumes fp: "fingerprintSSHKey e key = Some fp"
      and gd: "getUserData e fp w = (Inr ud, w1)"
      and f: "files w path = Some f"
  shows "(fst (calculateFileSize e path w1) = Inr fileSize
            \<longrightarrow> fileSize = godiv (fsize f) (1024 * 1024))
       \<and> (0 \<le> sint (fsize f)
            \<longrightarrow> sint (godiv (fsize f) (1024 * 1024)) = sint (fsize f) div (1024 * 1024))
       \<and> (0 \<le> sint (fsize f) \<and> sint (fsize f) < 1024 * 1024 \<longrightarrow>
            godiv (fsize f) (1024 * 1024) = 0
          \<and> (sint (DailyUpload ud) \<le> sint (MaxUserUploadSize cfg)
                \<longrightarrow> fst (processUpload e cfg key path w) \<noteq> RejectedSizeQuota)
          \<and> (fst (processUpload e cfg key path w) = Admitted
                \<longrightarrow> (\<exists>r. user_stats (snd (processUpload e cfg key path w)) fp = Some r
                         \<and> daily_upload r = DailyUpload ud)))"
proof -
  from getUserData_frame(1) [of e fp w] gd f have f1: "files w1 path = Some f" by simp
  have size: "fileSize = godiv (fsize f) (1024 * 1024)"
    if "fst (calculateFileSize e path w1) = Inr fileSize" for fileSize
    using calculateFileSize_Inr [OF that] f1 by auto
  have small: "godiv (fsize f) (1024 * 1024) = 0"
    if "0 \<le> sint (fsize f)" "sint (fsize f) < 1024 * 1024"
    using godiv_small [of "fsize f"] that by simp
  have norej: "fst (processUpload e cfg key path w) \<noteq> RejectedSizeQuota"
    if "0 \<le> sint (fsize f)" "sint (fsize f) < 1024 * 1024"
      and "sint (DailyUpload ud) \<le> sint (MaxUserUploadSize cfg)"
  proof
    assume "fst (processUpload e cfg key path w) = RejectedSizeQuota"
    then obtain fileSize where "fst (calculateFileSize e path w1) = Inr fileSize"
      and "sint (MaxUserUploadSize cfg) < sint (DailyUpload ud + fileSize)"
      unfolding processUpload_outcome [OF fp gd]
      by (auto split: if_splits sum.splits)
    with size small that show False by simp
  qed
  have adm: "\<exists>r. user_stats (snd (processUpload e cfg key path w)) fp = Some r
                         \<and> daily_upload r = DailyUpload ud"
    if "0 \<le> sint (fsize f)" "sint (fsize f) < 1024 * 1024"
      and "fst (processUpload e cfg key path w) = Admitted"
  proof -
    obtain out w' where r: "processUpload e cfg key path w = (out, w')"
      by (cases "processUpload e cfg key path w")
    with that have out: "out = Admitted" by simp
    from getUserData_Inr [OF gd] obtain row where
      row: "user_stats w1 fp = Some row" "DailyUpload ud = daily_upload row"
      by blast
    from processUpload_table [OF fp gd r] out
    have "user_stats w' = user_stats w1
        \<or> (\<exists>fileSize duration. fst (calculateFileSize e path w1) = Inr fileSize
              \<and> user_stats w' =
              (user_stats w1)(fp \<mapsto> row_of (ud\<lparr>DailyUpload := DailyUpload ud + fileSize,
                                                DailyAirtime := DailyAirtime ud + duration,
                                                LastUpload := clock w1\<rparr>)))"
      by auto
    then show ?thesis
    proof
      assume "user_stats w' = user_stats w1"
      with row r show ?thesis by simp
    next
      assume "\<exists>fileSize duration. fst (calculateFileSize e path w1) = Inr fileSize
              \<and> user_stats w' =
              (user_stats w1)(fp \<mapsto> row_of (ud\<lparr>DailyUpload := DailyUpload ud + fileSize,
                                                DailyAirtime := DailyAirtime ud + duration,
                                                LastUpload := clock w1\<rparr>))"
      then obtain fileSize duration where "fst (calculateFileSize e path w1) = Inr fileSize"
        and "user_stats w' =
              (user_stats w1)(fp \<mapsto> row_of (ud\<lparr>DailyUpload := DailyUpload ud + fileSize,
                                                DailyAirtime := DailyAirtime ud + duration,
                                                LastUpload := clock w1\<rparr>))"
        by blast
      with size small that(1,2) r show ?thesis by (simp add: row_of_def)
    qed
  qed
  show ?thesis
    using size sint_godiv [of "fsize f"] small norej adm by simp
qed

theorem small_file_costs_no_quota_witness:
  "fingerprintSSHKey std_env ''/keys/alice.pub'' = Some ''alice''
   \<and> fst (getUserData std_env ''alice'' world_A) = Inr zeroUserData
   \<and> files world_A ''/in/d.mp3'' = Some \<lparr>fsize = 1000, probe = Some ''0.050000''\<rparr>
   \<and> fst (calculateFileSize std_env ''/in/d.mp3'' (snd (getUserData std_env ''alice'' world_A)))
       = Inr 0
   \<and> 0 \<le> sint (1000 :: goint) \<and> sint (1000 :: goint) < 1024 * 1024
   \<and> godiv 1000 (1024 * 1024) = 0
   \<and> sint (DailyUpload zeroUserData) \<le> sint (MaxUserUploadSize cfg_A)
   \<and> fst (processUpload std_env cfg_A ''/keys/alice.pub'' ''/in/d.mp3'' world_A) = Admitted
   \<and> user_stats (snd (processUpload std_env cfg_A ''/keys/alice.pub'' ''/in/d.mp3'' world_A)) ''alice''
       = Some \<lparr>strikes = 0, timeouts = 0, daily_upload = 0, daily_airtime = 0, last_upload = Some 7\<rparr>"
proof -
  let ?f = "\<lparr>fsize = 1000, probe = Some ''0.050000''\<rparr>"
  have k: "fingerprintSSHKey std_env ''/keys/alice.pub'' = Some ''alice''"
    by (simp add: std_env_def)
  have g: "fst (getUserData std_env ''alice'' world_A) = Inr zeroUserData"
    by (simp add: getUserData_def extcall_def world_A_def std_env_def)
  then have g': "getUserData std_env ''alice'' world_A
                  = (Inr zeroUserData, snd (getUserData std_env ''alice'' world_A))"
    by (simp add: prod_eq_iff)
  have f: "files world_A ''/in/d.mp3'' = Some ?f" by (simp add: world_A_def)
  have sz: "fst (calculateFileSize std_env ''/in/d.mp3'' (snd (getUserData std_env ''alice'' world_A)))
              = Inr 0"
    by (simp add: model_defs scenario_defs)
  have b: "0 \<le> sint (1000 :: goint)" "sint (1000 :: goint) < 1024 * 1024" by simp_all
  have q: "sint (DailyUpload zeroUserData) \<le> sint (MaxUserUploadSize cfg_A)"
    by (simp add: zeroUserData_def cfg_A_def)
  have a: "fst (processUpload std_env cfg_A ''/keys/alice.pub'' ''/in/d.mp3'' world_A) = Admitted"
    by (simp add: model_defs scenario_defs)
  have r: "user_stats (snd (processUpload std_env cfg_A ''/keys/alice.pub'' ''/in/d.mp3'' world_A)) ''alice''
       = Some \<lparr>strikes = 0, timeouts = 0, daily_upload = 0, daily_airtime = 0, last_upload = Some 7\<rparr>"
    by (simp add: model_defs scenario_defs)
  from small_file_costs_no_quota [OF k g' f, of 0 cfg_A] b
  have "godiv 1000 (1024 * 1024) = (0 :: goint)" by simp
  with k g f sz b q a r show ?thesis by simp
qed

theorem small_file_counterexample:
  "files world_A ''/in/d.mp3'' = Some \<lparr>fsize = 1000, probe = Some ''0.050000''\<rparr>
   \<and> fst (calculateFileSize std_env ''/in/d.mp3'' world_A) = Inr 0
   \<and> user_stats world_A ''alice'' = None
   \<and> fst (processUpload std_env cfg_neg ''/keys/alice.pub'' ''/in/d.mp3'' world_A)
       = RejectedSizeQuota
   \<and> user_stats (snd (processUpload std_env cfg_neg ''/keys/alice.pub'' ''/in/d.mp3'' world_A)) ''alice''
       = Some \<lparr>strikes = 1, timeouts = 0, daily_upload = 0, daily_airtime = 0, last_upload = Some 0\<rparr>"
  by (simp add: model_defs scenario_defs)

end
